theory Spec2Isabelle
  imports Complex_Main "HOL-Library.Multiset"
begin

section \<open>Python values and helpers\<close>

text \<open>
  The analysers are Python programs over lists, insertion-ordered dictionaries and
  strings. Lists are HOL lists, a dictionary whose iteration order matters is an
  association list in insertion order, and a string is a \<open>char list\<close>.
  Python's slices never raise: an index out of range is clamped, and a negative index
  counts from the end of the list.
\<close>

definition py_slice_from :: "int \<Rightarrow> 'a list \<Rightarrow> 'a list" where
  \<comment> \<open>\<open>xs[i:]\<close>\<close>
  "py_slice_from i xs =
     (let n = int (length xs);
          k = (if i < 0 then max 0 (n + i) else min i n)
      in drop (nat k) xs)"

definition py_slice_to :: "int \<Rightarrow> 'a list \<Rightarrow> 'a list" where
  \<comment> \<open>\<open>xs[:j]\<close>\<close>
  "py_slice_to j xs =
     (let n = int (length xs);
          k = (if j < 0 then max 0 (n + j) else min j n)
      in take (nat k) xs)"

definition nl :: string where
  \<comment> \<open>the line feed, \<open>"\n"\<close>\<close>
  "nl = [CHR 0x0A]"

fun join :: "string \<Rightarrow> string list \<Rightarrow> string" where
  \<comment> \<open>\<open>sep.join(parts)\<close>\<close>
  "join sep [] = []"
| "join sep [p] = p"
| "join sep (p # q # ps) = p @ sep @ join sep (q # ps)"

definition digit_char :: "nat \<Rightarrow> char" where
  "digit_char d = ''0123456789'' ! d"

fun show_nat :: "nat \<Rightarrow> string" where
  "show_nat n = (if n < 10 then [digit_char n] else show_nat (n div 10) @ [digit_char (n mod 10)])"

definition show_int :: "int \<Rightarrow> string" where
  \<comment> \<open>\<open>str(i)\<close>, as an f-string renders an integer\<close>
  "show_int i = (if i < 0 then CHR ''-'' # show_nat (nat (- i)) else show_nat (nat i))"

definition lower_char :: "char \<Rightarrow> char" where
  "lower_char c =
     (case map_of (zip ''ABCDEFGHIJKLMNOPQRSTUVWXYZ'' ''abcdefghijklmnopqrstuvwxyz'') c of
        Some l \<Rightarrow> l
      | None \<Rightarrow> c)"

definition lower :: "string \<Rightarrow> string" where
  \<comment> \<open>\<open>s.lower()\<close> on the ASCII letters\<close>
  "lower s = map lower_char s"

definition sorted_reverse :: "('a \<Rightarrow> 'k::linorder) \<Rightarrow> 'a list \<Rightarrow> 'a list" where
  \<comment> \<open>\<open>sorted(xs, key=key, reverse=True)\<close>: the list is reversed, sorted by a stable
      sort and reversed again, so that equal keys keep the order they had in \<open>xs\<close>\<close>
  "sorted_reverse key xs = rev (sort_key key (rev xs))"

fun dict_get :: "('k \<times> 'v) list \<Rightarrow> 'k \<Rightarrow> 'v \<Rightarrow> 'v" where
  \<comment> \<open>\<open>d.get(k, dflt)\<close>\<close>
  "dict_get [] k dflt = dflt"
| "dict_get ((k', v) # d) k dflt = (if k' = k then v else dict_get d k dflt)"

fun dict_set :: "('k \<times> 'v) list \<Rightarrow> 'k \<Rightarrow> 'v \<Rightarrow> ('k \<times> 'v) list" where
  \<comment> \<open>\<open>d[k] = v\<close>: a key that is present keeps its place, a new key goes last\<close>
  "dict_set [] k v = [(k, v)]"
| "dict_set ((k', v') # d) k v = (if k' = k then (k, v) # d else (k', v') # dict_set d k v)"

definition py_dict :: "('k \<times> 'v) list \<Rightarrow> ('k \<times> 'v) list" where
  \<comment> \<open>\<open>dict(pairs)\<close>\<close>
  "py_dict pairs = fold (\<lambda>(k, v) d. dict_set d k v) pairs []"

definition os_path_join :: "string \<Rightarrow> string \<Rightarrow> string" where
  \<comment> \<open>\<open>os.path.join(a, b)\<close> on POSIX: an absolute second component replaces the first\<close>
  "os_path_join a b =
     (if take 1 b = ''/'' then b
      else if a = [] \<or> last a = CHR ''/'' then a @ b
      else a @ ''/'' @ b)"

definition timedelta_days :: "int \<Rightarrow> int" where
  \<comment> \<open>the \<open>days\<close> field of a \<open>timedelta\<close> of so many microseconds: it is normalised
      so that the seconds and microseconds are not negative, which is the floor\<close>
  "timedelta_days microseconds = microseconds div 86400000000"

section \<open>Data model\<close>

text \<open>
  The records that \<open>fetch_all_submissions\<close> and \<open>fetch_all_comments\<close> of
  \<open>reddit-analyzer-claude.py\<close> yield, with the keys of their \<open>data\<close> dictionaries
  as fields (\<open>sub_\<close> and \<open>com_\<close> tell the two kinds apart). The other analysers
  yield a subset of these keys. A float is a rational here; no function below computes
  with one. A time that the program writes with \<open>isoformat()\<close> and reads with
  \<open>fromisoformat()\<close> is represented by the instant it denotes, in microseconds.
\<close>

type_synonym pyfloat = rat

record submission =
  sub_title :: string
  sub_selftext :: string
  sub_subreddit :: string
  sub_score :: int
  sub_upvote_ratio :: pyfloat
  sub_created_utc :: pyfloat
  sub_permalink :: string
  sub_num_comments :: int
  sub_url :: string
  sub_is_self :: bool
  sub_link_flair_text :: "string option"
  sub_over_18 :: bool

record comment =
  com_body :: string
  com_subreddit :: string
  com_score :: int
  com_created_utc :: pyfloat
  com_permalink :: string
  com_is_submitter :: bool
  com_distinguished :: "string option"
  com_parent_id :: string
  com_link_id :: string

record statistics =
  total_submissions :: nat
  total_comments :: nat
  top_subreddits :: "(string \<times> nat) list"

record dataset =
  submissions :: "submission list"
  comments :: "comment list"
  username :: string
  fetch_time :: int
  statistics :: statistics

record turn =
  timestamp :: int
  question :: string
  answer :: string

section \<open>Exceptions, files and the console\<close>

text \<open>
  Every \<open>raise\<close> of the program and of the libraries it calls is a value of
  \<open>exn\<close>; a function that can raise returns \<open>exn + 'a\<close>. All of them are
  instances of Python's \<open>Exception\<close>, so \<open>except Exception\<close> catches each.
\<close>

datatype exn =
    JSONDecodeError string    \<comment> \<open>\<open>json.load\<close> on a document that is not JSON\<close>
  | RedditError string        \<comment> \<open>any exception of the Reddit client\<close>
  | CompletionError string    \<comment> \<open>any exception of the completion client\<close>
  | StartupError string       \<comment> \<open>the analyser's constructor: credentials, clients\<close>
  | EOFError                  \<comment> \<open>\<open>console.input\<close> at the end of the input\<close>

fun str_exn :: "exn \<Rightarrow> string" where
  \<comment> \<open>\<open>str(e)\<close>\<close>
  "str_exn (JSONDecodeError msg) = msg"
| "str_exn (RedditError msg) = msg"
| "str_exn (CompletionError msg) = msg"
| "str_exn (StartupError msg) = msg"
| "str_exn EOFError = []"

text \<open>
  A file of the cache or history directory either holds the JSON document of a value, as
  \<open>json.dump\<close> writes it, or a text that \<open>json.load\<close> rejects; the latter is
  represented by the message of the \<open>JSONDecodeError\<close> it raises. The JSON text
  itself is not modelled: \<open>json.load\<close> gives back the value that \<open>json.dump\<close>
  wrote.
\<close>

datatype 'a json_file = Json 'a | Malformed string

definition json_dump :: "'a \<Rightarrow> 'a json_file" where
  "json_dump data = Json data"

definition json_load :: "'a json_file \<Rightarrow> exn + 'a" where
  "json_load f = (case f of Json data \<Rightarrow> Inr data | Malformed msg \<Rightarrow> Inl (JSONDecodeError msg))"

definition empty_file :: "'a json_file" where
  \<comment> \<open>a file of length zero, on which \<open>json.load\<close> raises\<close>
  "empty_file = Malformed ''Expecting value: line 1 column 1 (char 0)''"

text \<open>
  The state outside the process: the files under \<open>reddit_cache\<close> and under
  \<open>chat_history\<close> by path, the lines printed on the console, and the requests made
  to the Reddit client (a log, so that a theorem can say that none was made).
\<close>

record world =
  cache_files :: "string \<rightharpoonup> dataset json_file"
  history_files :: "string \<rightharpoonup> turn list json_file"
  console :: "string list"
  requests :: "string list"

definition console_print :: "string \<Rightarrow> world \<Rightarrow> world" where
  "console_print line w = w\<lparr>console := console w @ [line]\<rparr>"

definition request :: "string \<Rightarrow> world \<Rightarrow> world" where
  "request what w = w\<lparr>requests := requests w @ [what]\<rparr>"

text \<open>
  \<open>with open(path, 'w') as f: json.dump(data, f, indent=2)\<close> runs in two steps:
  \<open>open\<close> creates the file or cuts it to length zero, then the document is
  written into it. \<open>write_upto n\<close> is the directory after the first \<open>n\<close> steps,
  which is what a process that stops there leaves behind.
\<close>

definition open_w :: "(string \<rightharpoonup> 'a json_file) \<Rightarrow> string \<Rightarrow> (string \<rightharpoonup> 'a json_file)" where
  "open_w files path = files(path \<mapsto> empty_file)"

fun write_upto :: "nat \<Rightarrow> (string \<rightharpoonup> 'a json_file) \<Rightarrow> string \<Rightarrow> 'a \<Rightarrow> (string \<rightharpoonup> 'a json_file)" where
  "write_upto 0 files path data = files"
| "write_upto (Suc 0) files path data = open_w files path"
| "write_upto (Suc (Suc n)) files path data = (open_w files path)(path \<mapsto> json_dump data)"

section \<open>Remote fetcher\<close>

text \<open>
  A listing of the Reddit client is a lazy, finite sequence: it yields items and then
  is exhausted or raises. A redditor is what the client answers for one user name: the
  property \<open>created_utc\<close>, which raises when the user does not exist, and the two
  listings. The items are the records above: the generators copy the attributes of each
  item into a dictionary, key by key.
\<close>

datatype 'a listing = Exhausted | Yield 'a "'a listing" | Raise exn

record redditor =
  created_utc :: "exn + pyfloat"
  submissions_new :: "submission listing"
  comments_new :: "comment listing"

fun drain :: "'a listing \<Rightarrow> 'a list \<times> exn option" where
  \<comment> \<open>the items a \<open>for\<close> loop gets from the listing, and the exception that ends it\<close>
  "drain Exhausted = ([], None)"
| "drain (Yield x rest) = (case drain rest of (xs, e) \<Rightarrow> (x # xs, e))"
| "drain (Raise e) = ([], Some e)"

definition fetch_all_submissions :: "redditor \<Rightarrow> world \<Rightarrow> submission list \<times> world" where
  \<comment> \<open>the generator, drained by its caller: \<open>except Exception\<close> inside it prints the
      error and ends the generator\<close>
  "fetch_all_submissions r w =
     (case drain (submissions_new r) of
        (items, None) \<Rightarrow> (items, request ''submissions.new'' w)
      | (items, Some e) \<Rightarrow>
          (items, console_print (''[red]Error fetching submissions: '' @ str_exn e @ ''[/red]'')
                    (request ''submissions.new'' w)))"

definition fetch_all_comments :: "redditor \<Rightarrow> world \<Rightarrow> comment list \<times> world" where
  "fetch_all_comments r w =
     (case drain (comments_new r) of
        (items, None) \<Rightarrow> (items, request ''comments.new'' w)
      | (items, Some e) \<Rightarrow>
          (items, console_print (''[red]Error fetching comments: '' @ str_exn e @ ''[/red]'')
                    (request ''comments.new'' w)))"

section \<open>Aggregator\<close>

text \<open>
  The statistics block of \<open>fetch_user_data\<close>: the loop over
  \<open>submissions_data + comments_data\<close> counts the subreddits in a dictionary, whose
  items are sorted by count, largest first, cut to the first \<open>top_k\<close> and made a
  dictionary again. \<open>top_k\<close> is 10 in \<open>reddit-analyzer-claude.py\<close> and 5 in
  \<open>reddit-analyser-complete-claude.py\<close>.
\<close>

definition merged_subreddits :: "submission list \<Rightarrow> comment list \<Rightarrow> string list" where
  "merged_subreddits submissions_data comments_data =
     map sub_subreddit submissions_data @ map com_subreddit comments_data"

fun count_activity :: "(string \<times> nat) list \<Rightarrow> string list \<Rightarrow> (string \<times> nat) list" where
  "count_activity d [] = d"
| "count_activity d (s # ss) = count_activity (dict_set d s (dict_get d s 0 + 1)) ss"

definition subreddit_activity :: "string list \<Rightarrow> (string \<times> nat) list" where
  "subreddit_activity stream = count_activity [] stream"

definition rank_subreddits :: "(string \<times> nat) list \<Rightarrow> (string \<times> nat) list" where
  "rank_subreddits activity = sorted_reverse snd activity"

definition aggregate :: "nat \<Rightarrow> submission list \<Rightarrow> comment list \<Rightarrow> statistics" where
  "aggregate top_k submissions_data comments_data =
     (let activity = subreddit_activity (merged_subreddits submissions_data comments_data);
          top = py_dict (py_slice_to (int top_k) (rank_subreddits activity))
      in \<lparr>total_submissions = length submissions_data,
          total_comments = length comments_data,
          top_subreddits = top\<rparr>)"

section \<open>Cache store\<close>

record env =
  now :: int                                \<comment> \<open>\<open>datetime.now()\<close>, in microseconds\<close>
  reddit :: "string \<Rightarrow> redditor"             \<comment> \<open>\<open>self.reddit.redditor(username)\<close>\<close>
  completion :: "string \<Rightarrow> exn + string"     \<comment> \<open>\<open>self.client.messages.create\<close> on a prompt\<close>

definition get_cache_path :: "string \<Rightarrow> string" where
  "get_cache_path user = os_path_join ''reddit_cache'' (user @ ''.json'')"

definition load_cached_data :: "world \<Rightarrow> string \<Rightarrow> exn + dataset option" where
  "load_cached_data w user =
     (case cache_files w (get_cache_path user) of
        None \<Rightarrow> Inr None
      | Some f \<Rightarrow> (case json_load f of Inl e \<Rightarrow> Inl e | Inr data \<Rightarrow> Inr (Some data)))"

definition save_to_cache_upto :: "nat \<Rightarrow> world \<Rightarrow> string \<Rightarrow> dataset \<Rightarrow> world" where
  "save_to_cache_upto n w user data =
     w\<lparr>cache_files := write_upto n (cache_files w) (get_cache_path user) data\<rparr>"

definition save_to_cache :: "world \<Rightarrow> string \<Rightarrow> dataset \<Rightarrow> world" where
  "save_to_cache w user data = save_to_cache_upto 2 w user data"

definition bullet :: string where
  \<comment> \<open>the bullet U+2022 of the summary lines, in UTF-8\<close>
  "bullet = [CHR 0xE2, CHR 0x80, CHR 0xA2]"

definition summary_lines :: "dataset \<Rightarrow> string list" where
  "summary_lines data =
     [''[green]Successfully fetched and cached data:[/green]'',
      ''- Total submissions: '' @ show_nat (length (submissions data)),
      ''- Total comments: '' @ show_nat (length (comments data)),
      ''- Top active subreddits:''] @
     map (\<lambda>(sub, count). ''  '' @ bullet @ '' r/'' @ sub @ '': '' @ show_nat count @ '' posts/comments'')
       (top_subreddits (statistics data))"

definition build_dataset :: "env \<Rightarrow> string \<Rightarrow> submission list \<Rightarrow> comment list \<Rightarrow> dataset" where
  \<comment> \<open>the dictionary \<open>data\<close>, with the statistics computed just before it\<close>
  "build_dataset e user submissions_data comments_data =
     \<lparr>submissions = submissions_data,
      comments = comments_data,
      username = user,
      fetch_time = now e,
      statistics = aggregate 10 submissions_data comments_data\<rparr>"

definition fetch_and_cache :: "env \<Rightarrow> string \<Rightarrow> world \<Rightarrow> dataset option \<times> world" where
  \<comment> \<open>the \<open>try\<close> block of \<open>fetch_user_data\<close> with its \<open>except Exception\<close>\<close>
  "fetch_and_cache e user w =
     (let redditor = reddit e user in
      case created_utc redditor of
        Inl err \<Rightarrow>
          (None, console_print (''[red]Error fetching data: '' @ str_exn err @ ''[/red]'')
                   (request ''created_utc'' w))
      | Inr _ \<Rightarrow>
          (let (submissions_data, w1) = fetch_all_submissions redditor (request ''created_utc'' w);
               (comments_data, w2) = fetch_all_comments redditor w1;
               data = build_dataset e user submissions_data comments_data;
               w3 = save_to_cache w2 user data
           in (Some data, fold console_print (summary_lines data) w3)))"

definition fetch_user_data :: "env \<Rightarrow> string \<Rightarrow> bool \<Rightarrow> world \<Rightarrow> (exn + dataset option) \<times> world" where
  "fetch_user_data e user force_refresh w =
     (if \<not> force_refresh then
        (case load_cached_data w user of
           Inl err \<Rightarrow> (Inl err, w)
         | Inr (Some cached_data) \<Rightarrow>
             (let cache_age = now e - fetch_time cached_data in
              if timedelta_days cache_age < 1 then
                (Inr (Some cached_data),
                 console_print ''[green]Using cached data (less than 24 hours old)[/green]'' w)
              else
                (case fetch_and_cache e user
                        (console_print ''[yellow]Cache is over 24 hours old. Refreshing...[/yellow]'' w) of
                   (data, w') \<Rightarrow> (Inr data, w')))
         | Inr None \<Rightarrow>
             (case fetch_and_cache e user
                     (console_print ''[yellow]No cached data found. Fetching new data...[/yellow]'' w) of
                (data, w') \<Rightarrow> (Inr data, w')))
      else
        (case fetch_and_cache e user
                (console_print ''[yellow]Force refresh requested. Fetching new data...[/yellow]'' w) of
           (data, w') \<Rightarrow> (Inr data, w')))"

section \<open>Digest builder\<close>

text \<open>
  \<open>extract_post_data\<close> of \<open>reddit-analyser-complete-claude.py\<close>, the one with
  \<open>max_items\<close>. The calendar date of a record,
  \<open>datetime.fromtimestamp(t).strftime('%Y-%m-%d')\<close>, depends on the time zone of the
  machine and is a parameter, \<open>date\<close>.
\<close>

definition excerpt :: "string \<Rightarrow> string" where
  \<comment> \<open>\<open>text[:500]\<close>\<close>
  "excerpt body = py_slice_to 500 body"

definition select_top :: "('a \<Rightarrow> int) \<Rightarrow> int \<Rightarrow> 'a list \<Rightarrow> 'a list" where
  \<comment> \<open>\<open>sorted(items, key=score, reverse=True)[:max_items]\<close>\<close>
  "select_top score max_items items = py_slice_to max_items (sorted_reverse score items)"

definition header_parts :: "dataset \<Rightarrow> string list" where
  "header_parts data =
     (let stats = statistics data in
      [''User Activity Analysis for u/'' @ username data @ nl,
       ''OVERVIEW:'',
       ''Total Submissions: '' @ show_nat (total_submissions stats),
       ''Total Comments: '' @ show_nat (total_comments stats),
       nl @ ''Top Active Subreddits:''] @
      map (\<lambda>(sub, count). ''- r/'' @ sub @ '': '' @ show_nat count @ '' posts/comments'')
        (py_slice_to 5 (top_subreddits stats)))"

definition submission_parts :: "(pyfloat \<Rightarrow> string) \<Rightarrow> submission \<Rightarrow> string list" where
  "submission_parts date s =
     [nl @ ''Date: '' @ date (sub_created_utc s) @ nl @
      ''Title: '' @ sub_title s @ nl @
      ''Subreddit: r/'' @ sub_subreddit s @ nl @
      ''Score: '' @ show_int (sub_score s)] @
     (if sub_selftext s \<noteq> [] then [''Content: '' @ excerpt (sub_selftext s) @ ''...''] else [])"

definition comment_part :: "(pyfloat \<Rightarrow> string) \<Rightarrow> comment \<Rightarrow> string" where
  "comment_part date c =
     nl @ ''Date: '' @ date (com_created_utc c) @ nl @
     ''Subreddit: r/'' @ com_subreddit c @ nl @
     ''Score: '' @ show_int (com_score c) @ nl @
     ''Content: '' @ excerpt (com_body c) @ ''...''"

definition extract_post_data :: "(pyfloat \<Rightarrow> string) \<Rightarrow> dataset \<Rightarrow> int \<Rightarrow> string" where
  "extract_post_data date data max_items =
     join nl
       (header_parts data @
        [nl @ ''TOP SUBMISSIONS:''] @
        concat (map (submission_parts date) (select_top sub_score max_items (submissions data))) @
        [nl @ ''TOP COMMENTS:''] @
        map (comment_part date) (select_top com_score max_items (comments data)))"

section \<open>Conversation manager\<close>

definition get_history_path :: "string \<Rightarrow> string" where
  "get_history_path user = os_path_join ''chat_history'' (user @ ''_history.json'')"

definition load_chat_history :: "world \<Rightarrow> string \<Rightarrow> exn + turn list" where
  "load_chat_history w user =
     (case history_files w (get_history_path user) of
        None \<Rightarrow> Inr []
      | Some f \<Rightarrow> json_load f)"

definition save_chat_history :: "world \<Rightarrow> string \<Rightarrow> turn list \<Rightarrow> world" where
  "save_chat_history w user history =
     w\<lparr>history_files := write_upto 2 (history_files w) (get_history_path user) history\<rparr>"

definition context_window :: "turn list \<Rightarrow> turn list" where
  \<comment> \<open>\<open>chat_history[-3:]\<close> in \<open>analyse_with_claude\<close>\<close>
  "context_window chat_history = py_slice_from (- 3) chat_history"

definition history_entry :: "turn \<Rightarrow> string" where
  "history_entry entry =
     ''Previous Q: '' @ question entry @ nl @ ''Previous A: '' @ answer entry @ nl"

definition history_context :: "turn list \<Rightarrow> string" where
  "history_context chat_history = join nl (map history_entry (context_window chat_history))"

text \<open>
  \<open>extract_post_data\<close> of \<open>reddit-analyser-complete-groq.py\<close>, which has no
  \<open>max_items\<close>: the first 50 records of each list, in the order of the dataset, with
  their texts in full.
\<close>

definition recent_submission :: "(pyfloat \<Rightarrow> string) \<Rightarrow> submission \<Rightarrow> string" where
  "recent_submission date s =
     ''Date: '' @ date (sub_created_utc s) @ nl @
     ''Title: '' @ sub_title s @ nl @
     ''Content: '' @ sub_selftext s @ nl @
     ''Subreddit: r/'' @ sub_subreddit s @ nl @
     ''Score: '' @ show_int (sub_score s) @ nl @
     ''Comments: '' @ show_int (sub_num_comments s) @ nl @
     ''---'' @ nl @ nl"

definition recent_comment :: "(pyfloat \<Rightarrow> string) \<Rightarrow> comment \<Rightarrow> string" where
  "recent_comment date c =
     ''Date: '' @ date (com_created_utc c) @ nl @
     ''Subreddit: r/'' @ com_subreddit c @ nl @
     ''Content: '' @ com_body c @ nl @
     ''Score: '' @ show_int (com_score c) @ nl @
     ''---'' @ nl @ nl"

definition extract_post_data_recent :: "(pyfloat \<Rightarrow> string) \<Rightarrow> dataset \<Rightarrow> string" where
  "extract_post_data_recent date data =
     (let stats = statistics data in
      ''User Activity Analysis for u/'' @ username data @ nl @ nl @
      ''OVERVIEW:'' @ nl @
      ''Total Submissions: '' @ show_nat (total_submissions stats) @ nl @
      ''Total Comments: '' @ show_nat (total_comments stats) @ nl @
      nl @ ''Top Active Subreddits:'' @ nl @
      concat (map (\<lambda>(sub, count). ''- r/'' @ sub @ '': '' @ show_nat count @ '' posts/comments'' @ nl)
                (top_subreddits stats)) @
      nl @ ''---'' @ nl @ nl @
      ''RECENT SUBMISSIONS:'' @ nl @ nl @
      concat (map (recent_submission date) (py_slice_to 50 (submissions data))) @
      ''RECENT COMMENTS:'' @ nl @ nl @
      concat (map (recent_comment date) (py_slice_to 50 (comments data))))"

section \<open>Interactive session\<close>

text \<open>
  \<open>analyse_with_claude\<close> and \<open>interactive_analysis\<close> of
  \<open>reddit-analyzer-claude.py\<close>. The digest function of the analyser is the parameter
  \<open>format_data\<close>. The input of the session is a list with one element for each
  prompt that is answered: the line typed, and the state of the clock, of Reddit and
  of the completion service at that time. When the list ends, \<open>console.input\<close>
  raises \<open>EOFError\<close>.
\<close>

definition user_prompt :: "string \<Rightarrow> string \<Rightarrow> string \<Rightarrow> string \<Rightarrow> string" where
  "user_prompt user history_ctx q formatted_data =
     ''Based on this Reddit activity and our previous conversation, please answer '' @ nl @
     ''                    the following question about u/'' @ user @ '':'' @ nl @ nl @
     ''Previous conversation:'' @ nl @ history_ctx @ nl @ nl @
     ''New Question: '' @ q @ nl @ nl @
     ''User Activity:'' @ nl @ formatted_data @ nl @ nl @
     ''Please provide a focused and insightful answer based on the available data and our conversation history.''"

definition analyse_with_claude ::
  "(dataset \<Rightarrow> string) \<Rightarrow> env \<Rightarrow> string \<Rightarrow> string \<Rightarrow> turn list \<Rightarrow> world \<Rightarrow> (exn + string) \<times> world" where
  "analyse_with_claude format_data e user q chat_history w =
     (case fetch_user_data e user False w of
        (Inl err, w') \<Rightarrow> (Inl err, w')
      | (Inr None, w') \<Rightarrow> (Inr ''Unable to fetch user data.'', w')
      | (Inr (Some data), w') \<Rightarrow>
          (completion e (user_prompt user (history_context chat_history) q (format_data data)), w'))"

datatype control = Break | Continue

definition refresh_command :: "env \<Rightarrow> string \<Rightarrow> world \<Rightarrow> (exn + control) \<times> world" where
  \<comment> \<open>the branch for \<open>refresh\<close>: both the \<open>try\<close> and its \<open>except\<close> end in
      \<open>continue\<close>\<close>
  "refresh_command e user w =
     (case fetch_user_data e user True
             (console_print ''[yellow]Force refreshing user data...[/yellow]'' w) of
        (Inl err, w') \<Rightarrow>
          (Inr Continue, console_print (''[red]Error refreshing data: '' @ str_exn err @ ''[/red]'') w')
      | (Inr None, w') \<Rightarrow> (Inr Continue, w')
      | (Inr (Some data), w') \<Rightarrow>
          (Inr Continue, console_print ''[green]Data refreshed successfully![/green]'' w'))"

definition history_command :: "turn list \<Rightarrow> world \<Rightarrow> world" where
  "history_command chat_history w =
     fold console_print
       ((nl @ ''[bold]Chat History:[/bold]'') #
        map (\<lambda>entry. ''[cyan]Q: '' @ question entry @ ''[/cyan]'' @ nl @ nl @
                      ''[green]A: '' @ answer entry @ ''[/green]'') chat_history)
       w"

definition analysis_command ::
  "(dataset \<Rightarrow> string) \<Rightarrow> env \<Rightarrow> string \<Rightarrow> string \<Rightarrow> turn list \<Rightarrow> world
     \<Rightarrow> (exn + control) \<times> turn list \<times> world" where
  \<comment> \<open>the last \<open>try\<close> of the loop body; its \<open>except Exception\<close> prints the error\<close>
  "analysis_command format_data e user q chat_history w =
     (case analyse_with_claude format_data e user q chat_history
             (console_print ''[yellow]Analysing...[/yellow]'' w) of
        (Inl err, w') \<Rightarrow>
          (Inr Continue, chat_history, console_print (''[red]Error: '' @ str_exn err @ ''[/red]'') w')
      | (Inr analysis, w') \<Rightarrow>
          (let chat_history' = chat_history @ [\<lparr>timestamp = now e, question = q, answer = analysis\<rparr>];
               w'' = save_chat_history w' user chat_history'
           in (Inr Continue, chat_history',
               fold console_print [nl @ ''[bold]Analysis:[/bold]'', analysis] w'')))"

definition iteration ::
  "(dataset \<Rightarrow> string) \<Rightarrow> env \<Rightarrow> string \<Rightarrow> string \<Rightarrow> turn list \<Rightarrow> world
     \<Rightarrow> (exn + control) \<times> turn list \<times> world" where
  \<comment> \<open>the body of \<open>while True\<close>, after \<open>console.input\<close> has returned \<open>q\<close>\<close>
  "iteration format_data e user q chat_history w =
     (if lower q = ''exit'' then (Inr Break, chat_history, w)
      else if lower q = ''refresh'' then
        (case refresh_command e user w of (r, w') \<Rightarrow> (r, chat_history, w'))
      else if lower q = ''history'' then
        (Inr Continue, chat_history, history_command chat_history w)
      else analysis_command format_data e user q chat_history w)"

datatype outcome = Exited | Uncaught exn

fun interactive_loop ::
  "(dataset \<Rightarrow> string) \<Rightarrow> string \<Rightarrow> (string \<times> env) list \<Rightarrow> turn list \<Rightarrow> world
     \<Rightarrow> outcome \<times> turn list \<times> world" where
  "interactive_loop format_data user [] chat_history w = (Uncaught EOFError, chat_history, w)"
| "interactive_loop format_data user ((q, e) # rest) chat_history w =
     (case iteration format_data e user q chat_history w of
        (Inl err, h', w') \<Rightarrow> (Uncaught err, h', w')
      | (Inr Break, h', w') \<Rightarrow> (Exited, h', w')
      | (Inr Continue, h', w') \<Rightarrow> interactive_loop format_data user rest h' w')"

definition banner :: "string \<Rightarrow> string" where
  "banner user =
     ''[bold blue]Interactive Analysis Session for u/'' @ user @ ''[/bold blue]'' @ nl @
     ''Type 'exit' to end the session'' @ nl @
     ''Type 'history' to view chat history'' @ nl @
     ''Type 'refresh' to force refresh user data''"

definition interactive_analysis ::
  "(dataset \<Rightarrow> string) \<Rightarrow> exn option \<Rightarrow> string \<Rightarrow> (string \<times> env) list \<Rightarrow> world
     \<Rightarrow> outcome \<times> turn list \<times> world" where
  \<comment> \<open>\<open>startup\<close> is the exception of \<open>RedditPersonalityAnalyser()\<close>, if it raises\<close>
  "interactive_analysis format_data startup user inputs w =
     (case startup of
        Some err \<Rightarrow> (Uncaught err, [], w)
      | None \<Rightarrow>
          (case load_chat_history w user of
             Inl err \<Rightarrow> (Uncaught err, [], w)
           | Inr chat_history \<Rightarrow>
               interactive_loop format_data user inputs chat_history
                 (console_print (banner user) w)))"

section \<open>Notions of the specification\<close>

text \<open>
  The order of first appearance of the elements of a stream, and the place of the first
  occurrence of an element; the order of a ranking by count, largest first, with ties
  in the order of first appearance; and the consistency of a dataset with its own
  statistics.
\<close>

fun first_seen :: "'a list \<Rightarrow> 'a list" where
  "first_seen [] = []"
| "first_seen (x # xs) = x # filter (\<lambda>y. y \<noteq> x) (first_seen xs)"

definition first_index :: "'a list \<Rightarrow> 'a \<Rightarrow> nat" where
  "first_index xs x = length (takeWhile (\<lambda>y. y \<noteq> x) xs)"

definition ranked_before :: "string list \<Rightarrow> string \<times> nat \<Rightarrow> string \<times> nat \<Rightarrow> bool" where
  "ranked_before stream a b \<longleftrightarrow>
     snd b < snd a \<or> (snd a = snd b \<and> first_index stream (fst a) < first_index stream (fst b))"

definition fetched :: "env \<Rightarrow> string \<Rightarrow> dataset" where
  \<comment> \<open>the dataset of what the two listings of a user yield before they end or raise\<close>
  "fetched e user =
     build_dataset e user
       (fst (drain (submissions_new (reddit e user))))
       (fst (drain (comments_new (reddit e user))))"

definition consistent :: "dataset \<Rightarrow> bool" where
  "consistent data \<longleftrightarrow>
     total_submissions (statistics data) = length (submissions data) \<and>
     total_comments (statistics data) = length (comments data) \<and>
     list_all (\<lambda>(sub, count). 1 \<le> count) (top_subreddits (statistics data)) \<and>
     sum_list (map snd (top_subreddits (statistics data)))
       \<le> total_submissions (statistics data) + total_comments (statistics data)"

section \<open>Example data\<close>

text \<open>Concrete records, listings and states, for the examples below.\<close>

definition post :: "string \<Rightarrow> string \<Rightarrow> string \<Rightarrow> int \<Rightarrow> submission" where
  "post sub title body score =
     \<lparr>sub_title = title, sub_selftext = body, sub_subreddit = sub, sub_score = score,
      sub_upvote_ratio = 1, sub_created_utc = 0, sub_permalink = [], sub_num_comments = 0,
      sub_url = [], sub_is_self = True, sub_link_flair_text = None, sub_over_18 = False\<rparr>"

definition reply :: "string \<Rightarrow> string \<Rightarrow> int \<Rightarrow> comment" where
  "reply sub body score =
     \<lparr>com_body = body, com_subreddit = sub, com_score = score, com_created_utc = 0,
      com_permalink = [], com_is_submitter = False, com_distinguished = None,
      com_parent_id = [], com_link_id = []\<rparr>"

fun listing_of :: "'a list \<Rightarrow> exn option \<Rightarrow> 'a listing" where
  "listing_of [] None = Exhausted"
| "listing_of [] (Some e) = Raise e"
| "listing_of (x # xs) ending = Yield x (listing_of xs ending)"

definition world0 :: world where
  "world0 = \<lparr>cache_files = Map.empty, history_files = Map.empty, console = [], requests = []\<rparr>"

definition env_of ::
  "int \<Rightarrow> exn + pyfloat \<Rightarrow> submission listing \<Rightarrow> comment listing \<Rightarrow> (string \<Rightarrow> exn + string) \<Rightarrow> env" where
  "env_of t probe subs coms service =
     \<lparr>now = t,
      reddit = (\<lambda>user. \<lparr>created_utc = probe, submissions_new = subs, comments_new = coms\<rparr>),
      completion = service\<rparr>"

definition four_turns :: "turn list" where
  "four_turns =
     [\<lparr>timestamp = 1, question = ''q1'', answer = ''a1''\<rparr>,
      \<lparr>timestamp = 2, question = ''q2'', answer = ''a2''\<rparr>,
      \<lparr>timestamp = 3, question = ''q3'', answer = ''a3''\<rparr>,
      \<lparr>timestamp = 4, question = ''q4'', answer = ''a4''\<rparr>]"

definition quiet_env :: env where
  \<comment> \<open>Reddit knows the user and lists nothing; the completion service echoes its prompt\<close>
  "quiet_env = env_of 0 (Inr 0) Exhausted Exhausted Inr"

definition two_posts :: "submission list" where
  "two_posts = [post ''python'' ''t1'' [] 1, post ''rust'' ''t2'' [] 2]"

definition three_replies :: "comment list" where
  "three_replies = [reply ''rust'' ''c1'' 3, reply ''python'' ''c2'' 4, reply ''go'' ''c3'' 5]"

definition three_replies' :: "comment list" where
  "three_replies' = [reply ''python'' ''c2'' 4, reply ''rust'' ''c1'' 3, reply ''go'' ''c3'' 5]"

definition busy_env :: "comment list \<Rightarrow> env" where
  "busy_env coms = env_of 0 (Inr 0) (listing_of two_posts None) (listing_of coms None) Inr"

definition late_env :: env where
  "late_env = env_of 86400000000 (Inr 0) (listing_of two_posts None) (listing_of three_replies None) Inr"

definition flaky_env :: env where
  \<comment> \<open>two days later: each listing raises, the first after it has yielded one item\<close>
  "flaky_env =
     env_of 172800000000 (Inr 0)
       (listing_of [post ''python'' ''t1'' [] 1] (Some (RedditError ''received 503 HTTP response'')))
       (listing_of [] (Some (RedditError ''received 503 HTTP response'')))
       Inr"

definition old_world :: world where
  \<comment> \<open>the cache holds what \<open>busy_env three_replies\<close> gave at time 0\<close>
  "old_world = snd (fetch_user_data (busy_env three_replies) ''alice'' True world0)"

definition gone_env :: env where
  \<comment> \<open>two days later: Reddit does not know the user\<close>
  "gone_env = env_of 172800000000 (Inl (RedditError ''received 404 HTTP response'')) Exhausted Exhausted Inr"

definition corrupt_world :: world where
  \<comment> \<open>the cache file of alice holds a text that is not JSON\<close>
  "corrupt_world =
     world0\<lparr>cache_files := [get_cache_path ''alice'' \<mapsto> Malformed ''Expecting value: line 1 column 1 (char 0)'']\<rparr>"

definition down_env :: env where
  \<comment> \<open>Reddit knows the user and lists nothing; the completion service is overloaded\<close>
  "down_env = env_of 0 (Inr 0) Exhausted Exhausted (\<lambda>prompt. Inl (CompletionError ''overloaded_error''))"

definition script :: "(string \<times> env) list" where
  "script = [(''Who is alice?'', down_env), (''refresh'', gone_env), (''EXIT'', quiet_env)]"

section \<open>Lemmas on the helpers and the aggregator\<close>

lemma set_first_seen: "set (first_seen xs) = set xs"
  by (induction xs) auto

lemma distinct_first_seen: "distinct (first_seen xs)"
  by (induction xs) (auto simp: set_first_seen)

lemma keys_dict_set:
  "map fst (dict_set d k v) = (if k \<in> fst ` set d then map fst d else map fst d @ [k])"
  by (induction d) force+

lemma dict_get_dict_set:
  "dict_get (dict_set d k v) k' dflt = (if k' = k then v else dict_get d k' dflt)"
  by (induction d) auto

lemma keys_count_activity:
  "map fst (count_activity d ss) =
     map fst d @ filter (\<lambda>l. l \<notin> fst ` set d) (first_seen ss)"
proof (induction ss arbitrary: d)
  case Nil
  show ?case by simp
next
  case (Cons s ss)
  have *: "fst ` set (dict_set d s v) = insert s (fst ` set d)" for v
    using keys_dict_set[of d s v] by (metis (no_types, lifting) insert_absorb list.set_map
        list.simps(15) rotate1.simps(2) set_rotate1)
  show ?case
    by (auto simp: Cons.IH keys_dict_set * simp del: dict_set.simps intro!: filter_cong)
qed

lemma dict_get_count_activity:
  "dict_get (count_activity d ss) l 0 = dict_get d l 0 + count_list ss l"
  by (induction ss arbitrary: d) (auto simp: dict_get_dict_set)

lemma dict_get_mem:
  "distinct (map fst d) \<Longrightarrow> (k, v) \<in> set d \<Longrightarrow> dict_get d k dflt = v"
  by (induction d) (auto simp: rev_image_eqI)

lemma dict_as_map:
  assumes "distinct (map fst d)"
  shows "d = map (\<lambda>k. (k, dict_get d k dflt)) (map fst d)"
proof -
  have "map (\<lambda>p. (fst p, dict_get d (fst p) dflt)) d = d"
    by (rule map_idI) (auto simp: dict_get_mem[OF assms])
  then show ?thesis by (simp add: comp_def)
qed

lemma count_activity_empty:
  "count_activity [] ss = map (\<lambda>l. (l, count_list ss l)) (first_seen ss)"
proof -
  have k: "map fst (count_activity [] ss) = first_seen ss"
    by (simp add: keys_count_activity)
  then have "distinct (map fst (count_activity [] ss))"
    by (simp add: distinct_first_seen)
  from dict_as_map[OF this, of 0] show ?thesis
    by (simp add: k dict_get_count_activity)
qed

lemma dict_set_fresh: "k \<notin> fst ` set d \<Longrightarrow> dict_set d k v = d @ [(k, v)]"
  by (induction d) auto

lemma fold_dict_set_distinct:
  "distinct (map fst ps) \<Longrightarrow> fst ` set ps \<inter> fst ` set d = {} \<Longrightarrow>
   fold (\<lambda>(k, v) d. dict_set d k v) ps d = d @ ps"
proof (induction ps arbitrary: d)
  case Nil
  show ?case by simp
next
  case (Cons p ps)
  obtain k v where p: "p = (k, v)" by (cases p)
  from Cons.prems have fresh: "k \<notin> fst ` set d" by (auto simp: p)
  from Cons.prems have "fst ` set ps \<inter> fst ` set (d @ [(k, v)]) = {}"
    by (auto simp: p image_iff)
  with Cons.IH[of "d @ [(k, v)]"] Cons.prems show ?case
    by (simp add: p dict_set_fresh[OF fresh])
qed

lemma py_dict_distinct: "distinct (map fst ps) \<Longrightarrow> py_dict ps = ps"
  by (simp add: py_dict_def fold_dict_set_distinct)


lemma py_slice_to_nat: "py_slice_to (int k) xs = take k xs"
  by (simp add: py_slice_to_def Let_def min_def)

lemma sorted_reverse_desc: "sorted_wrt (\<lambda>a b. key b \<le> key a) (sorted_reverse key xs)"
proof -
  have "sorted (map key (sort_key key (rev xs)))" by (rule sorted_sort_key)
  then have "sorted_wrt (\<lambda>a b. key a \<le> key b) (sort_key key (rev xs))"
    by (simp add: sorted_map)
  then show ?thesis
    by (simp add: sorted_reverse_def sorted_wrt_rev)
qed

lemma sorted_reverse_stable:
  "filter (\<lambda>x. key x = k) (sorted_reverse key xs) = filter (\<lambda>x. key x = k) xs"
  by (simp add: sorted_reverse_def rev_filter[symmetric] sort_key_stable)

lemma mset_sorted_reverse: "mset (sorted_reverse key xs) = mset xs"
  by (simp add: sorted_reverse_def)

lemma set_sorted_reverse: "set (sorted_reverse key xs) = set xs"
  by (simp add: sorted_reverse_def)

lemma stable_lexicographic:
  fixes key :: "'a \<Rightarrow> 'k::linorder"
  shows "sorted_wrt (\<lambda>a b. key b \<le> key a) ys \<Longrightarrow>
   (\<And>k. sorted_wrt Q (filter (\<lambda>x. key x = k) ys)) \<Longrightarrow>
   sorted_wrt (\<lambda>a b. key b < key a \<or> (key a = key b \<and> Q a b)) ys"
proof (induction ys)
  case Nil
  show ?case by simp
next
  case (Cons y ys)
  have tail: "sorted_wrt Q (filter (\<lambda>x. key x = k) ys)" for k
    using Cons.prems(2)[of k] by (simp split: if_splits)
  have head: "Q y z" if "z \<in> set ys" "key z = key y" for z
    using Cons.prems(2)[of "key y"] that by simp
  from Cons.prems(1) have "sorted_wrt (\<lambda>a b. key b \<le> key a) ys"
    and le: "\<forall>z\<in>set ys. key z \<le> key y" by simp_all
  with Cons.IH tail have "sorted_wrt (\<lambda>a b. key b < key a \<or> (key a = key b \<and> Q a b)) ys"
    by blast
  moreover have "\<forall>z\<in>set ys. key z < key y \<or> (key y = key z \<and> Q y z)"
    using le head by (metis order.not_eq_order_implies_strict)
  ultimately show ?case by simp
qed

lemma first_index_Cons:
  "first_index (x # xs) y = (if y = x then 0 else Suc (first_index xs y))"
  by (simp add: first_index_def)

lemma first_seen_by_first_index:
  "sorted_wrt (\<lambda>l m. first_index xs l < first_index xs m) (first_seen xs)"
proof (induction xs)
  case Nil
  show ?case by simp
next
  case (Cons x xs)
  have "sorted_wrt (\<lambda>l m. first_index xs l < first_index xs m) (filter (\<lambda>y. y \<noteq> x) (first_seen xs))"
    using Cons.IH by (rule sorted_wrt_filter)
  then have "sorted_wrt (\<lambda>l m. first_index (x # xs) l < first_index (x # xs) m)
               (filter (\<lambda>y. y \<noteq> x) (first_seen xs))"
    by (rule sorted_wrt_mono_rel[rotated]) (auto simp: first_index_Cons)
  then show ?case
    by (auto simp: first_index_Cons)
qed

lemma ranking_sorted:
  "sorted_wrt (ranked_before stream) (rank_subreddits (subreddit_activity stream))"
proof -
  let ?act = "subreddit_activity stream"
  let ?Q = "\<lambda>a b :: string \<times> nat. first_index stream (fst a) < first_index stream (fst b)"
  have act: "?act = map (\<lambda>l. (l, count_list stream l)) (first_seen stream)"
    by (simp add: subreddit_activity_def count_activity_empty)
  have "sorted_wrt ?Q ?act"
    using first_seen_by_first_index[of stream] by (simp add: act sorted_wrt_map)
  then have "sorted_wrt ?Q (filter (\<lambda>x. snd x = k) (sorted_reverse snd ?act))" for k
    by (simp add: sorted_reverse_stable sorted_wrt_filter)
  from stable_lexicographic[OF sorted_reverse_desc, of ?Q snd, OF this]
  show ?thesis
    by (simp add: rank_subreddits_def ranked_before_def[abs_def])
qed

lemma ranking_entries:
  "set (rank_subreddits (subreddit_activity stream)) = (\<lambda>l. (l, count_list stream l)) ` set stream"
  "distinct (map fst (rank_subreddits (subreddit_activity stream)))"
proof -
  have act: "subreddit_activity stream = map (\<lambda>l. (l, count_list stream l)) (first_seen stream)"
    by (simp add: subreddit_activity_def count_activity_empty)
  show "set (rank_subreddits (subreddit_activity stream)) = (\<lambda>l. (l, count_list stream l)) ` set stream"
    by (simp add: rank_subreddits_def set_sorted_reverse act set_first_seen)
  have "mset (map fst (rank_subreddits (subreddit_activity stream))) = mset (first_seen stream)"
    by (simp add: rank_subreddits_def mset_sorted_reverse act image_mset.compositionality comp_def)
  then show "distinct (map fst (rank_subreddits (subreddit_activity stream)))"
    by (metis distinct_first_seen mset_eq_imp_distinct_iff)
qed

lemma top_subreddits_aggregate:
  "top_subreddits (aggregate k subs coms) =
     take k (rank_subreddits (subreddit_activity (merged_subreddits subs coms)))"
proof -
  have "distinct (map fst (take k (rank_subreddits (subreddit_activity (merged_subreddits subs coms)))))"
    using ranking_entries(2)[of "merged_subreddits subs coms"]
    by (simp flip: take_map)
  then show ?thesis
    by (simp add: aggregate_def Let_def py_slice_to_nat py_dict_distinct)
qed

lemma activity_order_stable:
  assumes "mset xs = mset ys" "first_seen xs = first_seen ys"
  shows "subreddit_activity xs = subreddit_activity ys"
proof -
  have "count_list xs l = count_list ys l" for l
    using assms(1) by (metis count_mset)
  then show ?thesis
    by (simp add: subreddit_activity_def count_activity_empty assms(2))
qed

lemma sum_dict_set_incr:
  "sum_list (map snd (dict_set d s (Suc (dict_get d s 0)))) = Suc (sum_list (map snd d))"
  by (induction d) auto

lemma sum_count_activity:
  "sum_list (map snd (count_activity d ss)) = sum_list (map snd d) + length ss"
  by (induction ss arbitrary: d) (simp_all add: sum_dict_set_incr del: dict_set.simps)

lemma sum_ranking:
  "sum_list (map snd (rank_subreddits (subreddit_activity stream))) = length stream"
proof -
  have "sum_list (map snd (sorted_reverse snd xs)) = sum_list (map snd xs)" for xs :: "(string \<times> nat) list"
    by (metis mset_sorted_reverse mset_map sum_mset_sum_list)
  then show ?thesis
    by (simp add: rank_subreddits_def subreddit_activity_def sum_count_activity)
qed

lemma sum_take_le: "sum_list (take k (xs :: nat list)) \<le> sum_list xs"
proof -
  have "sum_list (take k xs @ drop k xs) = sum_list (take k xs) + sum_list (drop k xs)"
    by (rule sum_list_append)
  then show ?thesis by simp
qed

lemma aggregate_consistent:
  "total_submissions (aggregate k subs coms) = length subs"
  "total_comments (aggregate k subs coms) = length coms"
  "list_all (\<lambda>(sub, count). 1 \<le> count) (top_subreddits (aggregate k subs coms))"
  "sum_list (map snd (top_subreddits (aggregate k subs coms))) \<le> length subs + length coms"
proof -
  let ?stream = "merged_subreddits subs coms"
  let ?r = "rank_subreddits (subreddit_activity ?stream)"
  show "total_submissions (aggregate k subs coms) = length subs"
    and "total_comments (aggregate k subs coms) = length coms"
    by (simp_all add: aggregate_def Let_def)
  have "1 \<le> c" if "(l, c) \<in> set (take k ?r)" for l c
  proof -
    from that have "(l, c) \<in> set ?r" by (rule in_set_takeD)
    then have "(l, c) \<in> (\<lambda>l. (l, count_list ?stream l)) ` set ?stream"
      by (simp only: ranking_entries(1))
    then have "l \<in> set ?stream" and c: "c = count_list ?stream l"
      by auto
    then have "count_list ?stream l \<noteq> 0"
      by (simp add: count_list_0_iff)
    with c show ?thesis by simp
  qed
  then have "\<forall>p\<in>set (take k ?r). case p of (l, c) \<Rightarrow> 1 \<le> c"
    by auto
  then show "list_all (\<lambda>(sub, count). 1 \<le> count) (top_subreddits (aggregate k subs coms))"
    by (simp only: top_subreddits_aggregate list_all_iff)
  have "sum_list (map snd (take k ?r)) \<le> sum_list (map snd ?r)"
    by (simp add: sum_take_le flip: take_map)
  also have "\<dots> = length ?stream" by (rule sum_ranking)
  finally show "sum_list (map snd (top_subreddits (aggregate k subs coms))) \<le> length subs + length coms"
    by (simp add: top_subreddits_aggregate merged_subreddits_def)
qed

lemma world_simps [simp]:
  "cache_files (console_print l w) = cache_files w"
  "history_files (console_print l w) = history_files w"
  "requests (console_print l w) = requests w"
  "console (console_print l w) = console w @ [l]"
  "cache_files (request r w) = cache_files w"
  "history_files (request r w) = history_files w"
  "requests (request r w) = requests w @ [r]"
  "console (request r w) = console w"
  by (simp_all add: console_print_def request_def)

lemma fold_console_print [simp]:
  "cache_files (fold console_print ls w) = cache_files w"
  "history_files (fold console_print ls w) = history_files w"
  "requests (fold console_print ls w) = requests w"
  "console (fold console_print ls w) = console w @ ls"
  by (induction ls arbitrary: w) simp_all

lemma save_to_cache_simps [simp]:
  "cache_files (save_to_cache w user data) = (cache_files w)(get_cache_path user \<mapsto> json_dump data)"
  "history_files (save_to_cache w user data) = history_files w"
  "requests (save_to_cache w user data) = requests w"
  "console (save_to_cache w user data) = console w"
  by (simp_all add: save_to_cache_def save_to_cache_upto_def numeral_2_eq_2 open_w_def)

lemma json_load_dump [simp]: "json_load (json_dump data) = Inr data"
  by (simp add: json_load_def json_dump_def)

lemma json_load_empty [simp]:
  "json_load empty_file = Inl (JSONDecodeError ''Expecting value: line 1 column 1 (char 0)'')"
  by (simp add: json_load_def empty_file_def)

lemma fetch_all_submissions_eq:
  "fst (fetch_all_submissions r w) = fst (drain (submissions_new r))"
  "cache_files (snd (fetch_all_submissions r w)) = cache_files w"
  "history_files (snd (fetch_all_submissions r w)) = history_files w"
  "requests (snd (fetch_all_submissions r w)) = requests w @ [''submissions.new'']"
  by (simp_all add: fetch_all_submissions_def split: prod.splits option.splits)

lemma fetch_all_comments_eq:
  "fst (fetch_all_comments r w) = fst (drain (comments_new r))"
  "cache_files (snd (fetch_all_comments r w)) = cache_files w"
  "history_files (snd (fetch_all_comments r w)) = history_files w"
  "requests (snd (fetch_all_comments r w)) = requests w @ [''comments.new'']"
  by (simp_all add: fetch_all_comments_def split: prod.splits option.splits)

lemma fetch_and_cache_raises:
  assumes "created_utc (reddit e user) = Inl err"
  shows "fetch_and_cache e user w =
           (None, console_print (''[red]Error fetching data: '' @ str_exn err @ ''[/red]'')
                    (request ''created_utc'' w))"
  using assms by (simp add: fetch_and_cache_def)

lemma fetch_and_cache_returns:
  assumes "created_utc (reddit e user) = Inr t"
  shows "fst (fetch_and_cache e user w) = Some (fetched e user)"
    and "cache_files (snd (fetch_and_cache e user w)) =
           (cache_files w)(get_cache_path user \<mapsto> json_dump (fetched e user))"
    and "history_files (snd (fetch_and_cache e user w)) = history_files w"
    and "requests (snd (fetch_and_cache e user w)) =
           requests w @ [''created_utc'', ''submissions.new'', ''comments.new'']"
  using assms
  by (simp_all add: fetch_and_cache_def fetched_def Let_def split_beta
        fetch_all_submissions_eq fetch_all_comments_eq)

lemma drain_listing_of [simp]: "drain (listing_of xs ending) = (xs, ending)"
  by (induction xs ending rule: listing_of.induct) simp_all

section \<open>Lemmas on the cache store\<close>

lemma timedelta_days_fresh: "timedelta_days age < 1 \<longleftrightarrow> age < 86400000000"
proof -
  have "age = (age div 86400000000) * 86400000000 + age mod 86400000000" by simp
  moreover have "0 \<le> age mod 86400000000" "age mod 86400000000 < 86400000000" by simp_all
  ultimately have "age div 86400000000 < 1 \<longleftrightarrow> age < 86400000000" by linarith
  then show ?thesis by (simp only: timedelta_days_def)
qed

lemma load_cached_data_save [simp]:
  "load_cached_data (save_to_cache w user data) user = Inr (Some data)"
  by (simp add: load_cached_data_def)

lemma load_cached_data_frame [simp]:
  "load_cached_data (console_print l w) user = load_cached_data w user"
  "load_cached_data (request r w) user = load_cached_data w user"
  "load_cached_data (fold console_print ls w) user = load_cached_data w user"
  by (simp_all add: load_cached_data_def)

lemma fetch_user_data_forced:
  "fetch_user_data e user True w =
     (Inr (fst (fetch_and_cache e user
                  (console_print ''[yellow]Force refresh requested. Fetching new data...[/yellow]'' w))),
      snd (fetch_and_cache e user
             (console_print ''[yellow]Force refresh requested. Fetching new data...[/yellow]'' w)))"
  by (simp add: fetch_user_data_def split_beta)

lemma fetch_user_data_corrupt:
  "load_cached_data w user = Inl err \<Longrightarrow> fetch_user_data e user False w = (Inl err, w)"
  by (simp add: fetch_user_data_def)

lemma fetch_user_data_absent:
  "load_cached_data w user = Inr None \<Longrightarrow>
   fetch_user_data e user False w =
     (Inr (fst (fetch_and_cache e user
                  (console_print ''[yellow]No cached data found. Fetching new data...[/yellow]'' w))),
      snd (fetch_and_cache e user
             (console_print ''[yellow]No cached data found. Fetching new data...[/yellow]'' w)))"
  by (simp add: fetch_user_data_def split_beta)

lemma fetch_user_data_fresh_cache:
  "load_cached_data w user = Inr (Some cached) \<Longrightarrow> now e - fetch_time cached < 86400000000 \<Longrightarrow>
   fetch_user_data e user False w =
     (Inr (Some cached),
      console_print ''[green]Using cached data (less than 24 hours old)[/green]'' w)"
  by (simp add: fetch_user_data_def Let_def timedelta_days_fresh)

lemma fetch_user_data_stale_cache:
  "load_cached_data w user = Inr (Some cached) \<Longrightarrow> 86400000000 \<le> now e - fetch_time cached \<Longrightarrow>
   fetch_user_data e user False w =
     (Inr (fst (fetch_and_cache e user
                  (console_print ''[yellow]Cache is over 24 hours old. Refreshing...[/yellow]'' w))),
      snd (fetch_and_cache e user
             (console_print ''[yellow]Cache is over 24 hours old. Refreshing...[/yellow]'' w)))"
  by (simp add: fetch_user_data_def Let_def timedelta_days_fresh split_beta)

lemma fetch_and_cache_requests:
  "requests (snd (fetch_and_cache e user w)) \<noteq> requests w"
  by (cases "created_utc (reddit e user)")
     (simp_all add: fetch_and_cache_raises fetch_and_cache_returns)

lemma fetch_and_cache_Some:
  assumes "fst (fetch_and_cache e user w) = Some data"
  shows "data = fetched e user"
    and "cache_files (snd (fetch_and_cache e user w)) =
           (cache_files w)(get_cache_path user \<mapsto> json_dump data)"
proof -
  obtain t where t: "created_utc (reddit e user) = Inr t"
    using assms by (cases "created_utc (reddit e user)") (simp_all add: fetch_and_cache_raises)
  from assms show "data = fetched e user"
    by (simp add: fetch_and_cache_returns(1)[OF t])
  then show "cache_files (snd (fetch_and_cache e user w)) =
           (cache_files w)(get_cache_path user \<mapsto> json_dump data)"
    by (simp add: fetch_and_cache_returns(2)[OF t])
qed

lemma refetch_built:
  assumes "fst (fetch_and_cache e user (console_print msg w)) = Some data"
    and "w' = snd (fetch_and_cache e user (console_print msg w))"
  shows "data = fetched e user \<and>
         cache_files w' = (cache_files w)(get_cache_path user \<mapsto> json_dump data)"
  using fetch_and_cache_Some[OF assms(1)] assms(2) by simp

text \<open>A dataset that \<open>fetch_user_data\<close> returns after a request to Reddit is the one
  it has built from the listings and written to the cache.\<close>

lemma fetch_user_data_built:
  assumes "fetch_user_data e user force w = (Inr (Some data), w')"
    and "requests w' \<noteq> requests w"
  shows "data = fetched e user"
    and "cache_files w' = (cache_files w)(get_cache_path user \<mapsto> json_dump data)"
    and "load_cached_data w' user = Inr (Some data)"
proof -
  have *: "data = fetched e user \<and>
           cache_files w' = (cache_files w)(get_cache_path user \<mapsto> json_dump data)"
  proof (cases force)
    case True
    with assms(1) show ?thesis
      by (intro refetch_built[where msg = "''[yellow]Force refresh requested. Fetching new data...[/yellow]''"])
         (simp_all add: fetch_user_data_forced)
  next
    case False
    show ?thesis
    proof (cases "load_cached_data w user")
      case (Inl err)
      with False assms show ?thesis by (simp add: fetch_user_data_corrupt)
    next
      case (Inr c)
      show ?thesis
      proof (cases c)
        case None
        with Inr False assms(1) show ?thesis
          by (intro refetch_built[where msg = "''[yellow]No cached data found. Fetching new data...[/yellow]''"])
             (simp_all add: fetch_user_data_absent)
      next
        case (Some cached)
        show ?thesis
        proof (cases "now e - fetch_time cached < 86400000000")
          case True
          with Some Inr False assms show ?thesis
            by (auto simp: fetch_user_data_fresh_cache)
        next
          case stale: False
          with Some Inr False assms(1) show ?thesis
            by (intro refetch_built[where msg = "''[yellow]Cache is over 24 hours old. Refreshing...[/yellow]''"])
               (simp_all add: fetch_user_data_stale_cache)
        qed
      qed
    qed
  qed
  then show "data = fetched e user"
    and "cache_files w' = (cache_files w)(get_cache_path user \<mapsto> json_dump data)"
    by simp_all
  then show "load_cached_data w' user = Inr (Some data)"
    by (simp add: load_cached_data_def)
qed

section \<open>The context window of the next prompt\<close>

lemma context_window_drop: "context_window h = drop (length h - 3) h"
proof -
  have "nat (max 0 (int (length h) - 3)) = length h - 3"
    by (simp add: max_def) linarith
  then show ?thesis
    by (simp add: context_window_def py_slice_from_def Let_def)
qed

text \<open>
  Claim C7. For a conversation history of any length, the turns that go into the next
  prompt are exactly the last \<open>min 3 (length history)\<close> turns of the history, in the
  order in which they were asked. The window is a suffix of the history; whenever
  \<open>analyse_with_claude\<close> has data to analyse, the prompt it hands to the completion
  service is \<open>user_prompt\<close> of the rendering of these turns and of no other, and
  \<open>user_prompt\<close> puts that rendering between the line \<open>Previous conversation:\<close>
  and the new question. \<open>persona.py\<close> takes the same slice.
\<close>

theorem context_window_most_recent:
  "length (context_window h) = min 3 (length h)
   \<and> context_window h = drop (length h - 3) h
   \<and> (\<exists>older. h = older @ context_window h)
   \<and> history_context h = join nl (map history_entry (drop (length h - 3) h))
   \<and> (fetch_user_data e user False w = (Inr (Some data), w') \<longrightarrow>
        analyse_with_claude format_data e user q h w =
          (completion e
             (user_prompt user (join nl (map history_entry (drop (length h - 3) h))) q
                (format_data data)),
           w'))
   \<and> (\<exists>before after.
        user_prompt user (history_context h) q formatted =
          before @ ''Previous conversation:'' @ nl @
          join nl (map history_entry (drop (length h - 3) h)) @ nl @ nl @
          ''New Question: '' @ q @ after)"
proof -
  note w = context_window_drop[of h]
  have "h = take (length h - 3) h @ context_window h"
    by (simp add: w)
  then have older: "\<exists>older. h = older @ context_window h" ..
  have len: "length (context_window h) = min 3 (length h)"
    by (simp add: w min_def)
  have ctx: "history_context h = join nl (map history_entry (drop (length h - 3) h))"
    by (simp add: w history_context_def)
  have supplied: "fetch_user_data e user False w = (Inr (Some data), w') \<longrightarrow>
        analyse_with_claude format_data e user q h w =
          (completion e
             (user_prompt user (join nl (map history_entry (drop (length h - 3) h))) q
                (format_data data)),
           w')"
    by (simp add: analyse_with_claude_def ctx)
  have "user_prompt user (history_context h) q formatted =
          (''Based on this Reddit activity and our previous conversation, please answer '' @ nl @
           ''                    the following question about u/'' @ user @ '':'' @ nl @ nl) @
          ''Previous conversation:'' @ nl @
          join nl (map history_entry (drop (length h - 3) h)) @ nl @ nl @
          ''New Question: '' @ q @
          (nl @ nl @ ''User Activity:'' @ nl @ formatted @ nl @ nl @
           ''Please provide a focused and insightful answer based on the available data and our conversation history.'')"
    by (simp add: user_prompt_def ctx)
  then have prompt: "\<exists>before after.
        user_prompt user (history_context h) q formatted =
          before @ ''Previous conversation:'' @ nl @
          join nl (map history_entry (drop (length h - 3) h)) @ nl @ nl @
          ''New Question: '' @ q @ after"
    by blast
  from len w older ctx supplied prompt show ?thesis
    by (intro conjI)
qed


text \<open>A history of four turns: the first turn is left out of the prompt.\<close>

theorem context_window_most_recent_witness:
  "fetch_user_data quiet_env ''alice'' False
     (save_to_cache world0 ''alice'' (fetched quiet_env ''alice''))
   = (Inr (Some (fetched quiet_env ''alice'')),
      console_print ''[green]Using cached data (less than 24 hours old)[/green]''
        (save_to_cache world0 ''alice'' (fetched quiet_env ''alice'')))
   \<and> analyse_with_claude (\<lambda>data. ''DIGEST'') quiet_env ''alice'' ''q5'' four_turns
       (save_to_cache world0 ''alice'' (fetched quiet_env ''alice''))
   = (Inr (user_prompt ''alice''
             (join nl (map history_entry
                [\<lparr>timestamp = 2, question = ''q2'', answer = ''a2''\<rparr>,
                 \<lparr>timestamp = 3, question = ''q3'', answer = ''a3''\<rparr>,
                 \<lparr>timestamp = 4, question = ''q4'', answer = ''a4''\<rparr>]))
             ''q5'' ''DIGEST''),
      console_print ''[green]Using cached data (less than 24 hours old)[/green]''
        (save_to_cache world0 ''alice'' (fetched quiet_env ''alice'')))"
proof -
  let ?w = "save_to_cache world0 ''alice'' (fetched quiet_env ''alice'')"
  let ?w' = "console_print ''[green]Using cached data (less than 24 hours old)[/green]'' ?w"
  have f: "fetch_user_data quiet_env ''alice'' False ?w = (Inr (Some (fetched quiet_env ''alice'')), ?w')"
    by (rule fetch_user_data_fresh_cache)
       (simp_all add: fetched_def build_dataset_def quiet_env_def env_of_def)
  have d: "drop (length four_turns - 3) four_turns =
             [\<lparr>timestamp = 2, question = ''q2'', answer = ''a2''\<rparr>,
              \<lparr>timestamp = 3, question = ''q3'', answer = ''a3''\<rparr>,
              \<lparr>timestamp = 4, question = ''q4'', answer = ''a4''\<rparr>]"
    by (simp add: four_turns_def)
  have c: "completion quiet_env = Inr"
    by (simp add: quiet_env_def env_of_def)
  note t = context_window_most_recent[where h = four_turns and e = quiet_env and user = "''alice''"
      and w = ?w and data = "fetched quiet_env ''alice''" and w' = ?w' and q = "''q5''"
      and format_data = "\<lambda>data. ''DIGEST''"]
  from t f have "analyse_with_claude (\<lambda>data. ''DIGEST'') quiet_env ''alice'' ''q5'' four_turns ?w =
          (completion quiet_env
             (user_prompt ''alice''
                (join nl (map history_entry (drop (length four_turns - 3) four_turns))) ''q5''
                ''DIGEST''),
           ?w')"
    by blast
  with f show ?thesis
    by (simp only: d c)
qed

section \<open>The ranking of the subreddits\<close>

lemma fetched_busy_env:
  "submissions (fetched (busy_env coms) user) = two_posts"
  "comments (fetched (busy_env coms) user) = coms"
  "statistics (fetched (busy_env coms) user) = aggregate 10 two_posts coms"
  by (simp_all add: fetched_def build_dataset_def busy_env_def env_of_def)

lemma fetch_busy_env:
  "fst (fetch_user_data (busy_env coms) user True world0) = Inr (Some (fetched (busy_env coms) user))"
  "requests (snd (fetch_user_data (busy_env coms) user True world0)) \<noteq> requests world0"
proof -
  have "created_utc (reddit (busy_env coms) user) = Inr 0"
    by (simp add: busy_env_def env_of_def)
  then show "fst (fetch_user_data (busy_env coms) user True world0) = Inr (Some (fetched (busy_env coms) user))"
    by (simp add: fetch_user_data_forced fetch_and_cache_returns)
  show "requests (snd (fetch_user_data (busy_env coms) user True world0)) \<noteq> requests world0"
    using fetch_and_cache_requests[of "busy_env coms" user
        "console_print ''[yellow]Force refresh requested. Fetching new data...[/yellow]'' world0"]
    by (simp add: fetch_user_data_forced)
qed

lemma example_streams:
  "merged_subreddits two_posts three_replies = [''python'', ''rust'', ''rust'', ''python'', ''go'']"
  "merged_subreddits two_posts three_replies' = [''python'', ''rust'', ''python'', ''rust'', ''go'']"
  by (simp_all add: merged_subreddits_def two_posts_def three_replies_def three_replies'_def
        post_def reply_def)

lemma example_ranking:
  "rank_subreddits (subreddit_activity [''python'', ''rust'', ''rust'', ''python'', ''go''])
     = [(''python'', 2), (''rust'', 2), (''go'', 1)]"
  by (simp add: subreddit_activity_def rank_subreddits_def sorted_reverse_def)

text \<open>
  Claim C5. In a dataset that \<open>fetch_user_data\<close> has fetched, the statistics count
  the records of the merged stream (the submissions, then the comments) by subreddit:
  the full ranking holds every subreddit of the stream once, with the number of its
  occurrences; it is sorted by count, largest first, and subreddits of equal count stand
  in the order of their first appearance in the stream (\<open>ranked_before\<close>); the
  statistics keep its first 10 entries (\<open>aggregate k\<close> keeps the first \<open>k\<close>; the
  other analyser uses 5). Hence two fetches whose streams have the same labels, each as
  often, and the same order of first appearance, give the same top list.
\<close>

theorem top_subreddits_ranking:
  assumes "fetch_user_data e user force w = (Inr (Some data), w')"
    and "requests w' \<noteq> requests w"
  shows "(let stream = merged_subreddits (submissions data) (comments data);
              ranking = rank_subreddits (subreddit_activity stream)
          in set ranking = (\<lambda>l. (l, count_list stream l)) ` set stream
             \<and> distinct (map fst ranking)
             \<and> sorted_wrt (ranked_before stream) ranking
             \<and> top_subreddits (statistics data) = take 10 ranking
             \<and> (\<forall>k. top_subreddits (aggregate k (submissions data) (comments data)) = take k ranking))
         \<and> (fetch_user_data e' user' force' v = (Inr (Some data'), v')
              \<longrightarrow> requests v' \<noteq> requests v
              \<longrightarrow> mset (merged_subreddits (submissions data) (comments data))
                    = mset (merged_subreddits (submissions data') (comments data'))
              \<longrightarrow> first_seen (merged_subreddits (submissions data) (comments data))
                    = first_seen (merged_subreddits (submissions data') (comments data'))
              \<longrightarrow> top_subreddits (statistics data) = top_subreddits (statistics data'))"
proof -
  have st: "statistics d = aggregate 10 (submissions d) (comments d)"
    if "d = fetched e' user'" for d e' user'
    using that by (simp add: fetched_def build_dataset_def)
  have s1: "statistics data = aggregate 10 (submissions data) (comments data)"
    using st fetch_user_data_built(1)[OF assms] by blast
  have stable: "top_subreddits (statistics data) = top_subreddits (statistics data')"
    if r: "fetch_user_data e' user' force' v = (Inr (Some data'), v')" "requests v' \<noteq> requests v"
      and m: "mset (merged_subreddits (submissions data) (comments data))
                = mset (merged_subreddits (submissions data') (comments data'))"
      and f: "first_seen (merged_subreddits (submissions data) (comments data))
                = first_seen (merged_subreddits (submissions data') (comments data'))"
  proof -
    have s2: "statistics data' = aggregate 10 (submissions data') (comments data')"
      using st fetch_user_data_built(1)[OF r] by blast
    show ?thesis
      using activity_order_stable[OF m f]
      by (simp only: s1 s2 top_subreddits_aggregate)
  qed
  have first: "let stream = merged_subreddits (submissions data) (comments data);
              ranking = rank_subreddits (subreddit_activity stream)
          in set ranking = (\<lambda>l. (l, count_list stream l)) ` set stream
             \<and> distinct (map fst ranking)
             \<and> sorted_wrt (ranked_before stream) ranking
             \<and> top_subreddits (statistics data) = take 10 ranking
             \<and> (\<forall>k. top_subreddits (aggregate k (submissions data) (comments data)) = take k ranking)"
    by (simp add: Let_def ranking_entries ranking_sorted s1 top_subreddits_aggregate)
  from stable have "fetch_user_data e' user' force' v = (Inr (Some data'), v')
              \<longrightarrow> requests v' \<noteq> requests v
              \<longrightarrow> mset (merged_subreddits (submissions data) (comments data))
                    = mset (merged_subreddits (submissions data') (comments data'))
              \<longrightarrow> first_seen (merged_subreddits (submissions data) (comments data))
                    = first_seen (merged_subreddits (submissions data') (comments data'))
              \<longrightarrow> top_subreddits (statistics data) = top_subreddits (statistics data')"
    by blast
  with first show ?thesis by (rule conjI)
qed

text \<open>Two fetches that differ in the order of two comments.\<close>

theorem top_subreddits_ranking_witness:
  "fetch_user_data (busy_env three_replies) ''alice'' True world0
     = (Inr (Some (fetched (busy_env three_replies) ''alice'')),
        snd (fetch_user_data (busy_env three_replies) ''alice'' True world0))
   \<and> requests (snd (fetch_user_data (busy_env three_replies) ''alice'' True world0)) \<noteq> requests world0
   \<and> fetch_user_data (busy_env three_replies') ''alice'' True world0
     = (Inr (Some (fetched (busy_env three_replies') ''alice'')),
        snd (fetch_user_data (busy_env three_replies') ''alice'' True world0))
   \<and> requests (snd (fetch_user_data (busy_env three_replies') ''alice'' True world0)) \<noteq> requests world0
   \<and> merged_subreddits two_posts three_replies = [''python'', ''rust'', ''rust'', ''python'', ''go'']
   \<and> merged_subreddits two_posts three_replies' = [''python'', ''rust'', ''python'', ''rust'', ''go'']
   \<and> top_subreddits (statistics (fetched (busy_env three_replies) ''alice''))
       = [(''python'', 2), (''rust'', 2), (''go'', 1)]
   \<and> top_subreddits (statistics (fetched (busy_env three_replies') ''alice''))
       = [(''python'', 2), (''rust'', 2), (''go'', 1)]"
proof -
  let ?d1 = "fetched (busy_env three_replies) ''alice''"
  let ?d2 = "fetched (busy_env three_replies') ''alice''"
  have r1: "fetch_user_data (busy_env three_replies) ''alice'' True world0
     = (Inr (Some ?d1), snd (fetch_user_data (busy_env three_replies) ''alice'' True world0))"
    by (simp add: prod_eq_iff fetch_busy_env(1))
  have r2: "fetch_user_data (busy_env three_replies') ''alice'' True world0
     = (Inr (Some ?d2), snd (fetch_user_data (busy_env three_replies') ''alice'' True world0))"
    by (simp add: prod_eq_iff fetch_busy_env(1))
  note q1 = fetch_busy_env(2)[of three_replies "''alice''"]
  note q2 = fetch_busy_env(2)[of three_replies' "''alice''"]
  have m: "mset (merged_subreddits (submissions ?d1) (comments ?d1))
             = mset (merged_subreddits (submissions ?d2) (comments ?d2))"
    by (simp add: fetched_busy_env example_streams)
  have f: "first_seen (merged_subreddits (submissions ?d1) (comments ?d1))
             = first_seen (merged_subreddits (submissions ?d2) (comments ?d2))"
    by (simp add: fetched_busy_env example_streams)
  note t = top_subreddits_ranking[OF r1 q1, where e' = "busy_env three_replies'"
      and user' = "''alice''" and force' = True and v = world0 and data' = ?d2
      and v' = "snd (fetch_user_data (busy_env three_replies') ''alice'' True world0)"]
  have a: "top_subreddits (statistics ?d1) = [(''python'', 2), (''rust'', 2), (''go'', 1)]"
    using t[THEN conjunct1]
    by (simp add: Let_def fetched_busy_env example_streams example_ranking)
  have "top_subreddits (statistics ?d1) = top_subreddits (statistics ?d2)"
    by (rule t[THEN conjunct2, rule_format, OF r2 q2 m f])
  with a have b: "top_subreddits (statistics ?d2) = [(''python'', 2), (''rust'', 2), (''go'', 1)]"
    by simp
  show ?thesis
    by (intro conjI) (fact r1 q1 r2 q2 example_streams a b)+
qed

section \<open>The consistency of a fetched dataset\<close>

lemma consistent_fetched: "consistent (fetched e user)"
  using aggregate_consistent[of 10 "fst (drain (submissions_new (reddit e user)))"
          "fst (drain (comments_new (reddit e user)))"]
  by (simp add: consistent_def fetched_def build_dataset_def)

text \<open>
  Claim C10. Every dataset that \<open>fetch_user_data\<close> builds from a fetch (it has made
  requests to Reddit and returns a dataset) is consistent with its own statistics:
  \<open>total_submissions\<close> and \<open>total_comments\<close> are the lengths of the two lists,
  every count among the top subreddits is at least 1, and the counts sum to at most the
  number of records. This is the dataset that is in the cache afterwards.
\<close>

theorem fetched_dataset_consistent:
  assumes "fetch_user_data e user force w = (Inr (Some data), w')"
    and "requests w' \<noteq> requests w"
  shows "total_submissions (statistics data) = length (submissions data)
       \<and> total_comments (statistics data) = length (comments data)
       \<and> (\<forall>(sub, n) \<in> set (top_subreddits (statistics data)). 1 \<le> n)
       \<and> sum_list (map snd (top_subreddits (statistics data)))
           \<le> total_submissions (statistics data) + total_comments (statistics data)
       \<and> consistent data
       \<and> load_cached_data w' user = Inr (Some data)"
proof -
  have "consistent data"
    using fetch_user_data_built(1)[OF assms] consistent_fetched by simp
  moreover note fetch_user_data_built(3)[OF assms]
  ultimately show ?thesis
    by (simp add: consistent_def list_all_iff)
qed

text \<open>A fetch of two submissions and three comments.\<close>

theorem fetched_dataset_consistent_witness:
  "fetch_user_data (busy_env three_replies) ''alice'' True world0
     = (Inr (Some (fetched (busy_env three_replies) ''alice'')),
        snd (fetch_user_data (busy_env three_replies) ''alice'' True world0))
   \<and> requests (snd (fetch_user_data (busy_env three_replies) ''alice'' True world0)) \<noteq> requests world0
   \<and> total_submissions (statistics (fetched (busy_env three_replies) ''alice'')) = 2
   \<and> length (submissions (fetched (busy_env three_replies) ''alice'')) = 2
   \<and> total_comments (statistics (fetched (busy_env three_replies) ''alice'')) = 3
   \<and> length (comments (fetched (busy_env three_replies) ''alice'')) = 3
   \<and> top_subreddits (statistics (fetched (busy_env three_replies) ''alice''))
       = [(''python'', 2), (''rust'', 2), (''go'', 1)]
   \<and> consistent (fetched (busy_env three_replies) ''alice'')
   \<and> load_cached_data (snd (fetch_user_data (busy_env three_replies) ''alice'' True world0)) ''alice''
       = Inr (Some (fetched (busy_env three_replies) ''alice''))"
proof -
  let ?d = "fetched (busy_env three_replies) ''alice''"
  let ?w' = "snd (fetch_user_data (busy_env three_replies) ''alice'' True world0)"
  have r: "fetch_user_data (busy_env three_replies) ''alice'' True world0 = (Inr (Some ?d), ?w')"
    by (simp add: prod_eq_iff fetch_busy_env(1))
  note q = fetch_busy_env(2)[of three_replies "''alice''"]
  note t = fetched_dataset_consistent[OF r q]
  have top: "top_subreddits (statistics ?d) = [(''python'', 2), (''rust'', 2), (''go'', 1)]"
    by (simp add: fetched_busy_env top_subreddits_aggregate example_streams example_ranking)
  have n: "length (submissions ?d) = 2" "length (comments ?d) = 3"
    by (simp_all add: fetched_busy_env two_posts_def three_replies_def)
  from t n have "total_submissions (statistics ?d) = 2" "total_comments (statistics ?d) = 3"
    by simp_all
  moreover from t have "consistent ?d" "load_cached_data ?w' ''alice'' = Inr (Some ?d)"
    by simp_all
  ultimately show ?thesis
    using r q n top by (intro conjI)
qed

section \<open>The freshness window of the cache\<close>

lemma fetch_time_fetched [simp]: "fetch_time (fetched e user) = now e"
  by (simp add: fetched_def build_dataset_def)

text \<open>
  Claim C1. Let \<open>fetch_user_data\<close> be called without \<open>force_refresh\<close> for a user
  whose cache file loads. If the cached dataset is less than 24 hours old (the age is
  \<open>now - fetch_time\<close>, in microseconds), it is returned as it is, no request goes
  to Reddit and the cache directory is left as it was. If it is 24 hours old or older,
  it is not returned: the call is the fetch from Reddit, and when Reddit knows the user
  the dataset built from the listings, stamped with the present time, is returned and
  is the one the cache holds afterwards. \<open>persona.py\<close>, which stores no fetch time,
  has no such window and is not what this theorem is about.
\<close>

theorem cache_freshness_window:
  assumes "load_cached_data w user = Inr (Some cached)"
  shows "(now e - fetch_time cached < 24 * 60 * 60 * 1000000 \<longrightarrow>
            fetch_user_data e user False w =
              (Inr (Some cached),
               console_print ''[green]Using cached data (less than 24 hours old)[/green]'' w)
            \<and> requests (snd (fetch_user_data e user False w)) = requests w
            \<and> cache_files (snd (fetch_user_data e user False w)) = cache_files w)
       \<and> (24 * 60 * 60 * 1000000 \<le> now e - fetch_time cached \<longrightarrow>
            fst (fetch_user_data e user False w) \<noteq> Inr (Some cached)
            \<and> requests (snd (fetch_user_data e user False w)) \<noteq> requests w
            \<and> fetch_user_data e user False w =
                (Inr (fst (fetch_and_cache e user
                      (console_print ''[yellow]Cache is over 24 hours old. Refreshing...[/yellow]'' w))),
                 snd (fetch_and_cache e user
                      (console_print ''[yellow]Cache is over 24 hours old. Refreshing...[/yellow]'' w)))
            \<and> (\<forall>t. created_utc (reddit e user) = Inr t \<longrightarrow>
                  fst (fetch_user_data e user False w) = Inr (Some (fetched e user))
                  \<and> fetch_time (fetched e user) = now e
                  \<and> load_cached_data (snd (fetch_user_data e user False w)) user
                      = Inr (Some (fetched e user)))
            \<and> (\<forall>err. created_utc (reddit e user) = Inl err \<longrightarrow>
                  fst (fetch_user_data e user False w) = Inr None))"
proof -
  let ?w1 = "console_print ''[yellow]Cache is over 24 hours old. Refreshing...[/yellow]'' w"
  have fresh: "fetch_user_data e user False w =
              (Inr (Some cached),
               console_print ''[green]Using cached data (less than 24 hours old)[/green]'' w)
            \<and> requests (snd (fetch_user_data e user False w)) = requests w
            \<and> cache_files (snd (fetch_user_data e user False w)) = cache_files w"
    if "now e - fetch_time cached < 24 * 60 * 60 * 1000000"
    using fetch_user_data_fresh_cache[OF assms, of e] that by simp
  have stale: "fst (fetch_user_data e user False w) \<noteq> Inr (Some cached)
            \<and> requests (snd (fetch_user_data e user False w)) \<noteq> requests w
            \<and> fetch_user_data e user False w =
                (Inr (fst (fetch_and_cache e user ?w1)), snd (fetch_and_cache e user ?w1))
            \<and> (\<forall>t. created_utc (reddit e user) = Inr t \<longrightarrow>
                  fst (fetch_user_data e user False w) = Inr (Some (fetched e user))
                  \<and> fetch_time (fetched e user) = now e
                  \<and> load_cached_data (snd (fetch_user_data e user False w)) user
                      = Inr (Some (fetched e user)))
            \<and> (\<forall>err. created_utc (reddit e user) = Inl err \<longrightarrow>
                  fst (fetch_user_data e user False w) = Inr None)"
    if old: "24 * 60 * 60 * 1000000 \<le> now e - fetch_time cached"
  proof -
    from old have old': "86400000000 \<le> now e - fetch_time cached" by simp
    note eq = fetch_user_data_stale_cache[OF assms old']
    have req: "requests (snd (fetch_user_data e user False w)) \<noteq> requests w"
      using fetch_and_cache_requests[of e user ?w1] by (simp add: eq)
    have ok: "fst (fetch_user_data e user False w) = Inr (Some (fetched e user))
              \<and> fetch_time (fetched e user) = now e
              \<and> load_cached_data (snd (fetch_user_data e user False w)) user
                  = Inr (Some (fetched e user))"
      if "created_utc (reddit e user) = Inr t" for t
      by (simp add: eq fetch_and_cache_returns[OF that] load_cached_data_def)
    have bad: "fst (fetch_user_data e user False w) = Inr None"
      if "created_utc (reddit e user) = Inl err" for err
      by (simp add: eq fetch_and_cache_raises[OF that])
    have "fetch_time cached \<noteq> now e" using old by simp
    then have "cached \<noteq> fetched e user" by auto
    then have "fst (fetch_user_data e user False w) \<noteq> Inr (Some cached)"
      using ok bad by (cases "created_utc (reddit e user)") auto
    with req eq ok bad show ?thesis by blast
  qed
  from fresh stale show ?thesis by blast
qed

text \<open>A cache entry of age 0, and the same entry when it is exactly 24 hours old.\<close>

theorem cache_freshness_window_witness:
  "load_cached_data (save_to_cache world0 ''alice'' (fetched quiet_env ''alice'')) ''alice''
     = Inr (Some (fetched quiet_env ''alice''))
   \<and> now quiet_env - fetch_time (fetched quiet_env ''alice'') < 24 * 60 * 60 * 1000000
   \<and> fetch_user_data quiet_env ''alice'' False
         (save_to_cache world0 ''alice'' (fetched quiet_env ''alice''))
       = (Inr (Some (fetched quiet_env ''alice'')),
          console_print ''[green]Using cached data (less than 24 hours old)[/green]''
            (save_to_cache world0 ''alice'' (fetched quiet_env ''alice'')))
   \<and> requests (snd (fetch_user_data quiet_env ''alice'' False
         (save_to_cache world0 ''alice'' (fetched quiet_env ''alice'')))) = []
   \<and> 24 * 60 * 60 * 1000000 \<le> now late_env - fetch_time (fetched quiet_env ''alice'')
   \<and> fst (fetch_user_data late_env ''alice'' False
         (save_to_cache world0 ''alice'' (fetched quiet_env ''alice'')))
       = Inr (Some (fetched late_env ''alice''))
   \<and> fetch_time (fetched late_env ''alice'') = 86400000000
   \<and> load_cached_data (snd (fetch_user_data late_env ''alice'' False
         (save_to_cache world0 ''alice'' (fetched quiet_env ''alice'')))) ''alice''
       = Inr (Some (fetched late_env ''alice''))"
proof -
  let ?d = "fetched quiet_env ''alice''"
  let ?w = "save_to_cache world0 ''alice'' ?d"
  have l: "load_cached_data ?w ''alice'' = Inr (Some ?d)" by simp
  have n0: "now quiet_env = 0" by (simp add: quiet_env_def env_of_def)
  have n1: "now late_env = 86400000000" by (simp add: late_env_def env_of_def)
  have p: "created_utc (reddit late_env ''alice'') = Inr 0" by (simp add: late_env_def env_of_def)
  have a: "now quiet_env - fetch_time ?d < 24 * 60 * 60 * 1000000" by (simp add: n0)
  have b: "24 * 60 * 60 * 1000000 \<le> now late_env - fetch_time ?d" by (simp add: n0 n1)
  note t0 = cache_freshness_window[OF l, of quiet_env, THEN conjunct1, rule_format, OF a]
  note t1 = cache_freshness_window[OF l, of late_env, THEN conjunct2, rule_format, OF b]
  have r0: "requests world0 = []" by (simp add: world0_def)
  from t0 have c: "fetch_user_data quiet_env ''alice'' False ?w
       = (Inr (Some ?d), console_print ''[green]Using cached data (less than 24 hours old)[/green]'' ?w)"
    by (rule conjunct1)
  from t0[THEN conjunct2, THEN conjunct1]
  have d: "requests (snd (fetch_user_data quiet_env ''alice'' False ?w)) = []"
    by (simp add: r0)
  note t2 = t1[THEN conjunct2, THEN conjunct2, THEN conjunct2, THEN conjunct1, rule_format, OF p]
  from t2 have e: "fst (fetch_user_data late_env ''alice'' False ?w) = Inr (Some (fetched late_env ''alice''))"
    by (rule conjunct1)
  from t2 have f: "fetch_time (fetched late_env ''alice'') = 86400000000"
    by (simp only: n1)
  from t2 have g: "load_cached_data (snd (fetch_user_data late_env ''alice'' False ?w)) ''alice''
       = Inr (Some (fetched late_env ''alice''))"
    by (elim conjE)
  show ?thesis
    by (intro conjI) (fact l a c d b e f g)+
qed

section \<open>Errors of Reddit during a refresh\<close>



lemma old_world_cache:
  "load_cached_data old_world ''alice'' = Inr (Some (fetched (busy_env three_replies) ''alice''))"
proof -
  have r: "fetch_user_data (busy_env three_replies) ''alice'' True world0
     = (Inr (Some (fetched (busy_env three_replies) ''alice'')), old_world)"
    by (simp add: prod_eq_iff fetch_busy_env(1) old_world_def)
  have q: "requests old_world \<noteq> requests world0"
    using fetch_busy_env(2)[of three_replies "''alice''"] by (simp add: old_world_def)
  show ?thesis by (rule fetch_user_data_built(3)[OF r q])
qed







section \<open>A cache file that is not JSON\<close>

text \<open>
  Claim C4 says that \<open>load\<close> answers a malformed cache file with "absent" and that
  the next \<open>fetch_user_data\<close> without \<open>force_refresh\<close> fetches from Reddit.
  \<open>load_cached_data\<close> has no handler around \<open>json.load\<close>, and
  \<open>fetch_user_data\<close> calls it outside its \<open>try\<close>: the decode error comes out
  of both, and no request is made. An absent file, for comparison, loads as \<open>None\<close>.
\<close>

theorem corrupt_cache_counterexample:
  "load_cached_data corrupt_world ''alice''
     = Inl (JSONDecodeError ''Expecting value: line 1 column 1 (char 0)'')
   \<and> load_cached_data world0 ''alice'' = Inr None
   \<and> fetch_user_data quiet_env ''alice'' False corrupt_world
       = (Inl (JSONDecodeError ''Expecting value: line 1 column 1 (char 0)''), corrupt_world)
   \<and> requests (snd (fetch_user_data quiet_env ''alice'' False corrupt_world)) = []"
  by (simp add: load_cached_data_def corrupt_world_def world0_def json_load_def
        fetch_user_data_def)

text \<open>
  Claim C4, amended. For a user whose cache file is malformed, \<open>load_cached_data\<close>
  raises the decode error, and so do \<open>fetch_user_data\<close> without
  \<open>force_refresh\<close> and \<open>analyse_with_claude\<close>, with no request to Reddit and no
  change of any file. The process does not crash: the loop of the session prints the
  error and goes on to the next question. Only \<open>fetch_user_data\<close> with
  \<open>force_refresh\<close> (the command \<open>refresh\<close>) does not read the file: it fetches
  from Reddit and, when that succeeds, overwrites the file with the new dataset.
\<close>

theorem corrupt_cache_raises:
  assumes "cache_files w (get_cache_path user) = Some f"
    and "json_load f = Inl err"
  shows "load_cached_data w user = Inl err
       \<and> fetch_user_data e user False w = (Inl err, w)
       \<and> analyse_with_claude format_data e user q h w = (Inl err, w)
       \<and> (lower q \<noteq> ''exit'' \<longrightarrow> lower q \<noteq> ''refresh'' \<longrightarrow> lower q \<noteq> ''history'' \<longrightarrow>
            iteration format_data e user q h w =
              (Inr Continue, h,
               console_print (''[red]Error: '' @ str_exn err @ ''[/red]'')
                 (console_print ''[yellow]Analysing...[/yellow]'' w)))
       \<and> fetch_user_data e user True w =
            (Inr (fst (fetch_and_cache e user
                  (console_print ''[yellow]Force refresh requested. Fetching new data...[/yellow]'' w))),
             snd (fetch_and_cache e user
                  (console_print ''[yellow]Force refresh requested. Fetching new data...[/yellow]'' w)))
       \<and> (created_utc (reddit e user) = Inr t \<longrightarrow>
            fst (fetch_user_data e user True w) = Inr (Some (fetched e user))
            \<and> load_cached_data (snd (fetch_user_data e user True w)) user
                = Inr (Some (fetched e user)))"
proof -
  have l: "load_cached_data w' user = Inl err" if "cache_files w' = cache_files w" for w'
    using assms that by (simp add: load_cached_data_def)
  have a: "load_cached_data w user = Inl err" by (simp add: l)
  have b: "fetch_user_data e user False w' = (Inl err, w')" if "cache_files w' = cache_files w" for w'
    by (rule fetch_user_data_corrupt) (rule l[OF that])
  have c: "analyse_with_claude format_data e user q h w' = (Inl err, w')"
    if "cache_files w' = cache_files w" for w'
    by (simp add: analyse_with_claude_def b[OF that])
  have d: "iteration format_data e user q h w =
              (Inr Continue, h,
               console_print (''[red]Error: '' @ str_exn err @ ''[/red]'')
                 (console_print ''[yellow]Analysing...[/yellow]'' w))"
    if "lower q \<noteq> ''exit''" "lower q \<noteq> ''refresh''" "lower q \<noteq> ''history''"
    using that by (simp add: iteration_def analysis_command_def c)
  have g: "fst (fetch_user_data e user True w) = Inr (Some (fetched e user))
            \<and> load_cached_data (snd (fetch_user_data e user True w)) user
                = Inr (Some (fetched e user))"
    if "created_utc (reddit e user) = Inr t"
    by (simp add: fetch_user_data_forced fetch_and_cache_returns[OF that] load_cached_data_def)
  from a b[of w] c[of w] d g fetch_user_data_forced[of e user w] show ?thesis
    by (intro conjI impI) simp_all
qed

theorem corrupt_cache_raises_witness:
  "cache_files corrupt_world (get_cache_path ''alice'')
     = Some (Malformed ''Expecting value: line 1 column 1 (char 0)'')
   \<and> json_load (Malformed ''Expecting value: line 1 column 1 (char 0)'' :: dataset json_file)
       = Inl (JSONDecodeError ''Expecting value: line 1 column 1 (char 0)'')
   \<and> lower ''Who is alice?'' \<noteq> ''exit'' \<and> lower ''Who is alice?'' \<noteq> ''refresh''
   \<and> lower ''Who is alice?'' \<noteq> ''history''
   \<and> iteration (\<lambda>data. ''DIGEST'') quiet_env ''alice'' ''Who is alice?'' [] corrupt_world
       = (Inr Continue, [],
          console_print ''[red]Error: Expecting value: line 1 column 1 (char 0)[/red]''
            (console_print ''[yellow]Analysing...[/yellow]'' corrupt_world))
   \<and> created_utc (reddit quiet_env ''alice'') = Inr 0
   \<and> fst (fetch_user_data quiet_env ''alice'' True corrupt_world)
       = Inr (Some (fetched quiet_env ''alice''))
   \<and> load_cached_data (snd (fetch_user_data quiet_env ''alice'' True corrupt_world)) ''alice''
       = Inr (Some (fetched quiet_env ''alice''))"
proof -
  have f: "cache_files corrupt_world (get_cache_path ''alice'')
     = Some (Malformed ''Expecting value: line 1 column 1 (char 0)'')"
    by (simp add: corrupt_world_def)
  have j: "json_load (Malformed ''Expecting value: line 1 column 1 (char 0)'' :: dataset json_file)
       = Inl (JSONDecodeError ''Expecting value: line 1 column 1 (char 0)'')"
    by (simp add: json_load_def)
  have q: "lower ''Who is alice?'' \<noteq> ''exit''" "lower ''Who is alice?'' \<noteq> ''refresh''"
    "lower ''Who is alice?'' \<noteq> ''history''"
    by (simp_all add: lower_def lower_char_def)
  have p: "created_utc (reddit quiet_env ''alice'') = Inr 0"
    by (simp add: quiet_env_def env_of_def)
  note t = corrupt_cache_raises[OF f j, where e = quiet_env and q = "''Who is alice?''"
      and h = "[]" and format_data = "\<lambda>data. ''DIGEST''" and t = 0]
  have a: "iteration (\<lambda>data. ''DIGEST'') quiet_env ''alice'' ''Who is alice?'' [] corrupt_world
       = (Inr Continue, [],
          console_print ''[red]Error: Expecting value: line 1 column 1 (char 0)[/red]''
            (console_print ''[yellow]Analysing...[/yellow]'' corrupt_world))"
    using t[THEN conjunct2, THEN conjunct2, THEN conjunct2, THEN conjunct1, rule_format, OF q]
    by simp
  note t5 = t[THEN conjunct2, THEN conjunct2, THEN conjunct2, THEN conjunct2, THEN conjunct2,
      rule_format, OF p]
  show ?thesis
    by (intro conjI) (fact f j q a p t5[THEN conjunct1] t5[THEN conjunct2])+
qed

section \<open>The cache and the history are written in place\<close>

lemma load_chat_history_save [simp]:
  "load_chat_history (save_chat_history w user h) user = Inr h"
  by (simp add: load_chat_history_def save_chat_history_def numeral_2_eq_2)

lemma load_after_steps:
  "load_cached_data (save_to_cache_upto 0 w user x) user = load_cached_data w user"
  "load_cached_data (save_to_cache_upto (Suc 0) w user x) user
     = Inl (JSONDecodeError ''Expecting value: line 1 column 1 (char 0)'')"
  "load_cached_data (save_to_cache_upto (Suc (Suc n)) w user x) user = Inr (Some x)"
  by (simp_all add: load_cached_data_def save_to_cache_upto_def open_w_def)

text \<open>
  Claim C8 as stated fails. \<open>save_to_cache\<close> opens the cache file itself with mode
  \<open>w\<close>, which empties it, and then dumps the dataset into it: there is no temporary
  file and no rename. Between the two steps a reader of the entry of \<open>alice\<close> sees
  neither the old dataset nor the new one: \<open>load_cached_data\<close> raises a decode
  error.
\<close>

theorem save_interrupted_counterexample:
  "load_cached_data old_world ''alice'' = Inr (Some (fetched (busy_env three_replies) ''alice''))
   \<and> load_cached_data (save_to_cache_upto 1 old_world ''alice'' (fetched flaky_env ''alice'')) ''alice''
       = Inl (JSONDecodeError ''Expecting value: line 1 column 1 (char 0)'')
   \<and> load_cached_data (save_to_cache old_world ''alice'' (fetched flaky_env ''alice'')) ''alice''
       = Inr (Some (fetched flaky_env ''alice''))"
  using old_world_cache by (simp add: load_after_steps)

text \<open>
  Claim C8, amended. \<open>save_to_cache\<close> writes the cache entry in place, in two steps.
  Before the first step a reader sees the old state of the entry, after the second it
  sees the new dataset, and in between the entry is an empty file, on which
  \<open>load_cached_data\<close> raises a decode error. The only write of the cache that a fetch
  makes is this \<open>save_to_cache\<close>, after both listings have been drained; a fetch
  whose existence probe fails leaves the cache as it is. \<open>save_chat_history\<close> writes
  the history file in the same two steps.
\<close>

theorem save_writes_in_place:
  "save_to_cache w user x = save_to_cache_upto 2 w user x
   \<and> load_cached_data (save_to_cache_upto 0 w user x) user = load_cached_data w user
   \<and> load_cached_data (save_to_cache_upto 1 w user x) user
       = Inl (JSONDecodeError ''Expecting value: line 1 column 1 (char 0)'')
   \<and> load_cached_data (save_to_cache_upto 2 w user x) user = Inr (Some x)
   \<and> cache_files (snd (fetch_and_cache e user w))
       = (case created_utc (reddit e user) of
            Inl err \<Rightarrow> cache_files w
          | Inr t \<Rightarrow> cache_files (save_to_cache w user (fetched e user)))
   \<and> history_files (save_chat_history w user h)
       = write_upto 2 (history_files w) (get_history_path user) h
   \<and> load_chat_history (w\<lparr>history_files := write_upto 1 (history_files w) (get_history_path user) h\<rparr>) user
       = Inl (JSONDecodeError ''Expecting value: line 1 column 1 (char 0)'')
   \<and> load_chat_history (save_chat_history w user h) user = Inr h"
proof -
  have a: "save_to_cache w user x = save_to_cache_upto 2 w user x"
    by (simp add: save_to_cache_def)
  have b: "load_cached_data (save_to_cache_upto 0 w user x) user = load_cached_data w user"
    by (rule load_after_steps)
  have c: "load_cached_data (save_to_cache_upto 1 w user x) user
       = Inl (JSONDecodeError ''Expecting value: line 1 column 1 (char 0)'')"
    using load_after_steps(2) by simp
  have d: "load_cached_data (save_to_cache_upto 2 w user x) user = Inr (Some x)"
    using load_after_steps(3)[of 0] by (simp add: numeral_2_eq_2)
  have e: "cache_files (snd (fetch_and_cache e user w))
       = (case created_utc (reddit e user) of
            Inl err \<Rightarrow> cache_files w
          | Inr t \<Rightarrow> cache_files (save_to_cache w user (fetched e user)))"
    by (cases "created_utc (reddit e user)")
       (simp_all add: fetch_and_cache_raises fetch_and_cache_returns)
  have f: "history_files (save_chat_history w user h)
       = write_upto 2 (history_files w) (get_history_path user) h"
    by (simp add: save_chat_history_def)
  have g: "load_chat_history (w\<lparr>history_files := write_upto 1 (history_files w) (get_history_path user) h\<rparr>) user
       = Inl (JSONDecodeError ''Expecting value: line 1 column 1 (char 0)'')"
    by (simp add: load_chat_history_def open_w_def)
  have h: "load_chat_history (save_chat_history w user h) user = Inr h"
    by (rule load_chat_history_save)
  show ?thesis
    by (intro conjI) (fact a b c d e f g h)+
qed

section \<open>Saving and loading a dataset\<close>

text \<open>
  Claim C6. For every user and every dataset \<open>x\<close>, with any number of records,
  \<open>load_cached_data\<close> after \<open>save_to_cache\<close> returns \<open>x\<close>, whatever the entry held
  before; a reader within the freshness window gets \<open>x\<close> from \<open>fetch_user_data\<close>;
  and the entries of other users are as they were.
\<close>

theorem save_load_round_trip:
  "load_cached_data (save_to_cache w user x) user = Inr (Some x)
   \<and> load_cached_data (save_to_cache (save_to_cache w user y) user x) user = Inr (Some x)
   \<and> (now e - fetch_time x < 86400000000 \<longrightarrow>
        fst (fetch_user_data e user False (save_to_cache w user x)) = Inr (Some x))
   \<and> (get_cache_path user' \<noteq> get_cache_path user \<longrightarrow>
        load_cached_data (save_to_cache w user x) user' = load_cached_data w user')"
proof -
  have a: "load_cached_data (save_to_cache w user x) user = Inr (Some x)" for w
    by (rule load_cached_data_save)
  have c: "now e - fetch_time x < 86400000000 \<longrightarrow>
        fst (fetch_user_data e user False (save_to_cache w user x)) = Inr (Some x)"
    using fetch_user_data_fresh_cache[OF a, of e w] by simp
  have d: "get_cache_path user' \<noteq> get_cache_path user \<longrightarrow>
        load_cached_data (save_to_cache w user x) user' = load_cached_data w user'"
    by (simp add: load_cached_data_def)
  show ?thesis
    using a c d by blast
qed

theorem save_load_round_trip_witness:
  "submissions (fetched quiet_env ''alice'') = [] \<and> comments (fetched quiet_env ''alice'') = []
   \<and> load_cached_data (save_to_cache world0 ''alice'' (fetched quiet_env ''alice'')) ''alice''
       = Inr (Some (fetched quiet_env ''alice''))
   \<and> load_cached_data
        (save_to_cache (save_to_cache world0 ''alice'' (fetched (busy_env three_replies) ''alice''))
           ''alice'' (fetched quiet_env ''alice'')) ''alice''
       = Inr (Some (fetched quiet_env ''alice''))
   \<and> now quiet_env - fetch_time (fetched quiet_env ''alice'') < 86400000000
   \<and> fst (fetch_user_data quiet_env ''alice'' False
             (save_to_cache world0 ''alice'' (fetched quiet_env ''alice'')))
       = Inr (Some (fetched quiet_env ''alice''))
   \<and> get_cache_path ''bob'' \<noteq> get_cache_path ''alice''
   \<and> load_cached_data (save_to_cache world0 ''alice'' (fetched quiet_env ''alice'')) ''bob''
       = load_cached_data world0 ''bob''
   \<and> load_cached_data world0 ''bob'' = Inr None"
proof -
  note t = save_load_round_trip[of world0 "''alice''" "fetched quiet_env ''alice''"
             "fetched (busy_env three_replies) ''alice''" quiet_env "''bob''"]
  have e: "submissions (fetched quiet_env ''alice'') = []" "comments (fetched quiet_env ''alice'') = []"
    by (simp_all add: fetched_def build_dataset_def quiet_env_def env_of_def)
  have f: "now quiet_env - fetch_time (fetched quiet_env ''alice'') < 86400000000"
    by (simp add: quiet_env_def env_of_def)
  have g: "get_cache_path ''bob'' \<noteq> get_cache_path ''alice''"
    by (simp add: get_cache_path_def os_path_join_def)
  have h: "load_cached_data world0 ''bob'' = Inr None"
    by (simp add: load_cached_data_def world0_def)
  note t1 = t[THEN conjunct1]
  note t2 = t[THEN conjunct2, THEN conjunct1]
  note t3 = t[THEN conjunct2, THEN conjunct2, THEN conjunct1, rule_format, OF f]
  note t4 = t[THEN conjunct2, THEN conjunct2, THEN conjunct2, rule_format, OF g]
  show ?thesis
    by (intro conjI) (fact e f g h t1 t2 t3 t4)+
qed

section \<open>The session survives the errors of a turn\<close>

lemma iteration_control:
  "fst (iteration format_data e user q h w) = Inr (if lower q = ''exit'' then Break else Continue)"
  by (simp add: iteration_def refresh_command_def analysis_command_def Let_def
        split: prod.splits sum.splits option.splits)

lemma interactive_loop_outcome:
  "fst (interactive_loop format_data user inputs h w)
     = (if ''exit'' \<in> set (map (\<lambda>(q, e). lower q) inputs) then Exited else Uncaught EOFError)"
proof (induction inputs arbitrary: h w)
  case Nil
  show ?case by simp
next
  case (Cons i inputs)
  obtain q e where i: "i = (q, e)" by (cases i)
  obtain r h' w' where it: "iteration format_data e user q h w = (r, h', w')"
    by (cases "iteration format_data e user q h w")
  have r: "r = Inr (if lower q = ''exit'' then Break else Continue)"
    using iteration_control[of format_data e user q h w] it by simp
  show ?case
    using Cons.IH[of h' w'] by (simp add: i it r)
qed


lemma completion_error_reported:
  assumes "lower q \<noteq> ''exit''" "lower q \<noteq> ''refresh''" "lower q \<noteq> ''history''"
    and "fetch_user_data e user False (console_print ''[yellow]Analysing...[/yellow]'' w)
           = (Inr (Some data), w')"
    and "completion e (user_prompt user (history_context h) q (format_data data)) = Inl err"
  shows "iteration format_data e user q h w
           = (Inr Continue, h, console_print (''[red]Error: '' @ str_exn err @ ''[/red]'') w')"
  using assms by (simp add: iteration_def analysis_command_def analyse_with_claude_def)

lemma refresh_error_reported:
  assumes "lower q = ''refresh''" and "created_utc (reddit e user) = Inl err"
  shows "iteration format_data e user q h w
           = (Inr Continue, h,
              console_print (''[red]Error fetching data: '' @ str_exn err @ ''[/red]'')
                (request ''created_utc''
                  (console_print ''[yellow]Force refresh requested. Fetching new data...[/yellow]''
                    (console_print ''[yellow]Force refreshing user data...[/yellow]'' w))))"
  using assms
  by (simp add: iteration_def refresh_command_def fetch_user_data_forced fetch_and_cache_raises)

lemma fetch_error_reported:
  assumes "lower q \<noteq> ''exit''" "lower q \<noteq> ''refresh''" "lower q \<noteq> ''history''"
    and "load_cached_data w user = Inr None" and "created_utc (reddit e user) = Inl err"
  shows "iteration format_data e user q h w
           = (Inr Continue,
              h @ [\<lparr>timestamp = now e, question = q, answer = ''Unable to fetch user data.''\<rparr>],
              fold console_print [nl @ ''[bold]Analysis:[/bold]'', ''Unable to fetch user data.'']
                (save_chat_history
                  (console_print (''[red]Error fetching data: '' @ str_exn err @ ''[/red]'')
                    (request ''created_utc''
                      (console_print ''[yellow]No cached data found. Fetching new data...[/yellow]''
                        (console_print ''[yellow]Analysing...[/yellow]'' w))))
                  user
                  (h @ [\<lparr>timestamp = now e, question = q, answer = ''Unable to fetch user data.''\<rparr>])))"
proof -
  have "load_cached_data (console_print ''[yellow]Analysing...[/yellow]'' w) user = Inr None"
    using assms(4) by simp
  from fetch_user_data_absent[OF this, of e] show ?thesis
    using assms(1,2,3,5)
    by (simp add: iteration_def analysis_command_def analyse_with_claude_def
          fetch_and_cache_raises Let_def)
qed

text \<open>
  Claim C9. No error of a fetch or of the completion service ends the session. Every
  turn of the loop other than \<open>exit\<close> ends in \<open>continue\<close>, so that the loop goes on
  to ask the next question; the session ends with \<open>exit\<close>, and otherwise only where
  no further input arrives at the prompt or where the start fails (the analyser cannot
  be created, or the chat history cannot be loaded). A failure of the completion
  service and a failure of a fetch are printed as a line of the console.
\<close>

theorem session_survives_errors:
  "fst (iteration format_data e user q h w) = Inr (if lower q = ''exit'' then Break else Continue)
   \<and> (lower q \<noteq> ''exit'' \<longrightarrow>
        interactive_loop format_data user ((q, e) # rest) h w
          = interactive_loop format_data user rest
              (fst (snd (iteration format_data e user q h w)))
              (snd (snd (iteration format_data e user q h w))))
   \<and> fst (interactive_loop format_data user inputs h w)
       = (if ''exit'' \<in> set (map (\<lambda>(q, e). lower q) inputs) then Exited else Uncaught EOFError)
   \<and> fst (interactive_analysis format_data startup user inputs w)
       = (case startup of
            Some err \<Rightarrow> Uncaught err
          | None \<Rightarrow>
              (case load_chat_history w user of
                 Inl err \<Rightarrow> Uncaught err
               | Inr h0 \<Rightarrow>
                   if ''exit'' \<in> set (map (\<lambda>(q, e). lower q) inputs) then Exited
                   else Uncaught EOFError))
   \<and> (lower q \<noteq> ''exit'' \<longrightarrow> lower q \<noteq> ''refresh'' \<longrightarrow> lower q \<noteq> ''history'' \<longrightarrow>
        fetch_user_data e user False (console_print ''[yellow]Analysing...[/yellow]'' w)
          = (Inr (Some data), w') \<longrightarrow>
        completion e (user_prompt user (history_context h) q (format_data data)) = Inl err \<longrightarrow>
        iteration format_data e user q h w
          = (Inr Continue, h, console_print (''[red]Error: '' @ str_exn err @ ''[/red]'') w'))
   \<and> (lower q = ''refresh'' \<longrightarrow> created_utc (reddit e user) = Inl err \<longrightarrow>
        iteration format_data e user q h w
          = (Inr Continue, h,
             console_print (''[red]Error fetching data: '' @ str_exn err @ ''[/red]'')
               (request ''created_utc''
                 (console_print ''[yellow]Force refresh requested. Fetching new data...[/yellow]''
                   (console_print ''[yellow]Force refreshing user data...[/yellow]'' w)))))
   \<and> (lower q \<noteq> ''exit'' \<longrightarrow> lower q \<noteq> ''refresh'' \<longrightarrow> lower q \<noteq> ''history'' \<longrightarrow>
        load_cached_data w user = Inr None \<longrightarrow> created_utc (reddit e user) = Inl err \<longrightarrow>
        iteration format_data e user q h w
          = (Inr Continue,
             h @ [\<lparr>timestamp = now e, question = q, answer = ''Unable to fetch user data.''\<rparr>],
             fold console_print [nl @ ''[bold]Analysis:[/bold]'', ''Unable to fetch user data.'']
               (save_chat_history
                 (console_print (''[red]Error fetching data: '' @ str_exn err @ ''[/red]'')
                   (request ''created_utc''
                     (console_print ''[yellow]No cached data found. Fetching new data...[/yellow]''
                       (console_print ''[yellow]Analysing...[/yellow]'' w))))
                 user
                 (h @ [\<lparr>timestamp = now e, question = q, answer = ''Unable to fetch user data.''\<rparr>]))))"
proof -
  have a: "fst (iteration format_data e user q h w) = Inr (if lower q = ''exit'' then Break else Continue)"
    by (rule iteration_control)
  have b: "lower q \<noteq> ''exit'' \<longrightarrow>
        interactive_loop format_data user ((q, e) # rest) h w
          = interactive_loop format_data user rest
              (fst (snd (iteration format_data e user q h w)))
              (snd (snd (iteration format_data e user q h w)))"
    using a by (cases "iteration format_data e user q h w") simp
  have c: "fst (interactive_loop format_data user inputs h w)
       = (if ''exit'' \<in> set (map (\<lambda>(q, e). lower q) inputs) then Exited else Uncaught EOFError)" for h w
    by (rule interactive_loop_outcome)
  have d: "fst (interactive_analysis format_data startup user inputs w)
       = (case startup of
            Some err \<Rightarrow> Uncaught err
          | None \<Rightarrow>
              (case load_chat_history w user of
                 Inl err \<Rightarrow> Uncaught err
               | Inr h0 \<Rightarrow>
                   if ''exit'' \<in> set (map (\<lambda>(q, e). lower q) inputs) then Exited
                   else Uncaught EOFError))"
    by (simp add: interactive_analysis_def c split: option.split sum.split)
  note f = completion_error_reported[of q e user w "data" w' h format_data err]
    and g = refresh_error_reported[of q e user err format_data h w]
    and i = fetch_error_reported[of q w user e err format_data h]
  show ?thesis
    by (intro conjI impI) (fact a b[rule_format] c d | rule f g i; assumption)+
qed


theorem session_survives_errors_witness:
  "fst (interactive_analysis username None ''alice'' script world0) = Exited
   \<and> fst (interactive_analysis username None ''alice'' (take 2 script) world0) = Uncaught EOFError
   \<and> fst (interactive_analysis username (Some (StartupError ''key.txt file not found'')) ''alice''
            script world0)
       = Uncaught (StartupError ''key.txt file not found'')
   \<and> lower ''Who is alice?'' \<noteq> ''exit'' \<and> lower ''Who is alice?'' \<noteq> ''refresh''
   \<and> lower ''Who is alice?'' \<noteq> ''history''
   \<and> fst (fetch_user_data down_env ''alice'' False
             (console_print ''[yellow]Analysing...[/yellow]'' world0))
       = Inr (Some (fetched down_env ''alice''))
   \<and> completion down_env
         (user_prompt ''alice'' (history_context []) ''Who is alice?'' (username (fetched down_env ''alice'')))
       = Inl (CompletionError ''overloaded_error'')
   \<and> iteration username down_env ''alice'' ''Who is alice?'' [] world0
       = (Inr Continue, [],
          console_print ''[red]Error: overloaded_error[/red]''
            (snd (fetch_user_data down_env ''alice'' False
                   (console_print ''[yellow]Analysing...[/yellow]'' world0))))
   \<and> lower ''Refresh'' = ''refresh''
   \<and> created_utc (reddit gone_env ''alice'') = Inl (RedditError ''received 404 HTTP response'')
   \<and> iteration username gone_env ''alice'' ''Refresh'' [] world0
       = (Inr Continue, [],
          console_print ''[red]Error fetching data: received 404 HTTP response[/red]''
            (request ''created_utc''
              (console_print ''[yellow]Force refresh requested. Fetching new data...[/yellow]''
                (console_print ''[yellow]Force refreshing user data...[/yellow]'' world0))))
   \<and> load_cached_data world0 ''alice'' = Inr None
   \<and> fst (iteration username gone_env ''alice'' ''Who is alice?'' [] world0) = Inr Continue
   \<and> ''[red]Error fetching data: received 404 HTTP response[/red]''
       \<in> set (console (snd (snd (iteration username gone_env ''alice'' ''Who is alice?'' [] world0))))"
proof -
  have q: "lower ''Who is alice?'' \<noteq> ''exit''" "lower ''Who is alice?'' \<noteq> ''refresh''"
    "lower ''Who is alice?'' \<noteq> ''history''"
    by (simp_all add: lower_def lower_char_def)
  have r: "lower ''Refresh'' = ''refresh''"
    by (simp add: lower_def lower_char_def)
  have l: "load_cached_data world0 ''alice'' = Inr None"
    by (simp add: load_cached_data_def world0_def)
  have l': "load_cached_data (console_print ''[yellow]Analysing...[/yellow]'' world0) ''alice'' = Inr None"
    using l by simp
  have p: "created_utc (reddit down_env ''alice'') = Inr 0"
    by (simp add: down_env_def env_of_def)
  have g: "created_utc (reddit gone_env ''alice'') = Inl (RedditError ''received 404 HTTP response'')"
    by (simp add: gone_env_def env_of_def)
  have f1: "fst (fetch_user_data down_env ''alice'' False
             (console_print ''[yellow]Analysing...[/yellow]'' world0))
       = Inr (Some (fetched down_env ''alice''))"
    by (simp add: fetch_user_data_absent[OF l'] fetch_and_cache_returns(1)[OF p])
  have f: "fetch_user_data down_env ''alice'' False
             (console_print ''[yellow]Analysing...[/yellow]'' world0)
       = (Inr (Some (fetched down_env ''alice'')),
          snd (fetch_user_data down_env ''alice'' False
                 (console_print ''[yellow]Analysing...[/yellow]'' world0)))"
    using f1 by (simp add: prod_eq_iff)
  have c: "completion down_env
         (user_prompt ''alice'' (history_context []) ''Who is alice?'' (username (fetched down_env ''alice'')))
       = Inl (CompletionError ''overloaded_error'')"
    by (simp add: down_env_def env_of_def)
  have s: "''exit'' \<in> set (map (\<lambda>(q, e). lower q) script)"
    "''exit'' \<notin> set (map (\<lambda>(q, e). lower q) (take 2 script))"
    by (simp_all add: script_def lower_def lower_char_def)
  have h0: "load_chat_history world0 ''alice'' = Inr []"
    by (simp add: load_chat_history_def world0_def)
  note t1 = session_survives_errors[where format_data = username and startup = None
      and user = "''alice''" and inputs = script and w = world0,
      THEN conjunct2, THEN conjunct2, THEN conjunct2, THEN conjunct1]
  note t2 = session_survives_errors[where format_data = username and startup = None
      and user = "''alice''" and inputs = "take 2 script" and w = world0,
      THEN conjunct2, THEN conjunct2, THEN conjunct2, THEN conjunct1]
  note t3 = session_survives_errors[where format_data = username
      and startup = "Some (StartupError ''key.txt file not found'')"
      and user = "''alice''" and inputs = script and w = world0,
      THEN conjunct2, THEN conjunct2, THEN conjunct2, THEN conjunct1]
  note t4 = session_survives_errors[where format_data = username and e = down_env
      and user = "''alice''" and q = "''Who is alice?''" and h = "[]" and w = world0,
      THEN conjunct2, THEN conjunct2, THEN conjunct2, THEN conjunct2, THEN conjunct1,
      rule_format, OF q f c]
  note t5 = session_survives_errors[where format_data = username and e = gone_env
      and user = "''alice''" and q = "''Refresh''" and h = "[]" and w = world0,
      THEN conjunct2, THEN conjunct2, THEN conjunct2, THEN conjunct2, THEN conjunct2,
      THEN conjunct1, rule_format, OF r g]
  note t6 = session_survives_errors[where format_data = username and e = gone_env
      and user = "''alice''" and q = "''Who is alice?''" and h = "[]" and w = world0,
      THEN conjunct2, THEN conjunct2, THEN conjunct2, THEN conjunct2, THEN conjunct2,
      THEN conjunct2, rule_format, OF q l g]
  have a1: "fst (interactive_analysis username None ''alice'' script world0) = Exited"
    using t1 s(1) h0 by simp
  have a2: "fst (interactive_analysis username None ''alice'' (take 2 script) world0) = Uncaught EOFError"
    using t2 s(2) h0 by simp
  have a3: "fst (interactive_analysis username (Some (StartupError ''key.txt file not found'')) ''alice''
            script world0)
       = Uncaught (StartupError ''key.txt file not found'')"
    using t3 by simp
  have a4: "iteration username down_env ''alice'' ''Who is alice?'' [] world0
       = (Inr Continue, [],
          console_print ''[red]Error: overloaded_error[/red]''
            (snd (fetch_user_data down_env ''alice'' False
                   (console_print ''[yellow]Analysing...[/yellow]'' world0))))"
    using t4 by simp
  have a5: "iteration username gone_env ''alice'' ''Refresh'' [] world0
       = (Inr Continue, [],
          console_print ''[red]Error fetching data: received 404 HTTP response[/red]''
            (request ''created_utc''
              (console_print ''[yellow]Force refresh requested. Fetching new data...[/yellow]''
                (console_print ''[yellow]Force refreshing user data...[/yellow]'' world0))))"
    using t5 by simp
  have a6: "fst (iteration username gone_env ''alice'' ''Who is alice?'' [] world0) = Inr Continue"
    by (simp add: t6)
  have a7: "''[red]Error fetching data: received 404 HTTP response[/red]''
       \<in> set (console (snd (snd (iteration username gone_env ''alice'' ''Who is alice?'' [] world0))))"
    by (simp add: t6 save_chat_history_def console_print_def request_def)
  show ?thesis
    by (intro conjI) (fact a1 a2 a3 q f1 c a4 r g a5 l a6 a7)+
qed

end
